theory Spec2Isabelle
  imports Complex_Main
begin

section \<open>Exceptions and results\<close>

text \<open>
  The Python exceptions that the modelled code can raise. \<open>NotImplementedError\<close> carries
  the message the repository formats; the other exceptions are raised by the interpreter
  or by the tensor library and carry no payload here.
\<close>

datatype error =
    NotImplementedError string
  | TypeError
  | AssertionError
  | AttributeError
  | UnboundLocalError
  | RuntimeError
  | ValueError
  | IndexError
  | ZeroDivisionError

text \<open>Sequencing of computations that may raise, and a loop that collects results.\<close>

definition ebind :: "error + 'a \<Rightarrow> ('a \<Rightarrow> error + 'b) \<Rightarrow> error + 'b" where
  "ebind m f = (case m of Inl e \<Rightarrow> Inl e | Inr x \<Rightarrow> f x)"

fun emap :: "('a \<Rightarrow> error + 'b) \<Rightarrow> 'a list \<Rightarrow> error + 'b list" where
  "emap f [] = Inr []"
| "emap f (x # xs) = ebind (f x) (\<lambda>y. ebind (emap f xs) (\<lambda>ys. Inr (y # ys)))"

section \<open>Strings\<close>

text \<open>\<open>s.find(sub) != -1\<close>: does \<open>sub\<close> occur in \<open>s\<close> as a contiguous substring.\<close>

primrec found :: "string \<Rightarrow> string \<Rightarrow> bool" where
  "found sub [] = (sub = [])"
| "found sub (c # cs) = (take (length sub) (c # cs) = sub \<or> found sub cs)"

section \<open>Modules\<close>

text \<open>
  A parameter tensor is represented by its shape and by the distribution its entries were
  last filled from (the entries themselves are random). An attribute of a module is absent,
  present with value \<open>None\<close>, or a parameter.
\<close>

datatype pdata =
    Default
  | Normal real real
  | XavierNormal real
  | KaimingNormal
  | Orthogonal real
  | Constant real

datatype attr = Absent | IsNone | Param "nat list" pdata

text \<open>
  The class of a module together with its construction arguments. Convolutions carry
  (in channels, out channels, kernel size, stride, padding), the transposed convolution
  additionally the output padding, the plain convolution the number of groups.
  \<open>Other\<close> is any other class, given by its class name.
\<close>

datatype kind =
    Conv2d nat nat nat nat nat nat
  | ConvTranspose2d nat nat nat nat nat nat
  | Linear nat nat
  | BatchNorm2d nat
  | InstanceNorm2d nat
  | LayerNorm nat string
  | ReflectionPad2d nat
  | ReplicationPad2d nat
  | ReLU
  | LeakyReLU
  | Tanh
  | GELU
  | Dropout
  | Identity
  | Resize nat nat
  | Sequential
  | ModuleList
  | DataParallel
  | ResnetGenerator
  | ResnetBlock
  | UnetGenerator
  | UnetSkipConnectionBlock bool
  | Block
  | InvBlock
  | ConvnextGenerator
  | ConvnextBIGenerator
  | InvnextGenerator
  | Discriminator_Classify
  | Other string

datatype module = Module (kind: kind) (weight: attr) (bias: attr) (children: "module list")

text \<open>\<open>m.__class__.__name__\<close>\<close>

fun classname :: "kind \<Rightarrow> string" where
  "classname (Conv2d _ _ _ _ _ _) = ''Conv2d''"
| "classname (ConvTranspose2d _ _ _ _ _ _) = ''ConvTranspose2d''"
| "classname (Linear _ _) = ''Linear''"
| "classname (BatchNorm2d _) = ''BatchNorm2d''"
| "classname (InstanceNorm2d _) = ''InstanceNorm2d''"
| "classname (LayerNorm _ _) = ''LayerNorm''"
| "classname (ReflectionPad2d _) = ''ReflectionPad2d''"
| "classname (ReplicationPad2d _) = ''ReplicationPad2d''"
| "classname ReLU = ''ReLU''"
| "classname LeakyReLU = ''LeakyReLU''"
| "classname Tanh = ''Tanh''"
| "classname GELU = ''GELU''"
| "classname Dropout = ''Dropout''"
| "classname Identity = ''Identity''"
| "classname (Resize _ _) = ''Resize''"
| "classname Sequential = ''Sequential''"
| "classname ModuleList = ''ModuleList''"
| "classname DataParallel = ''DataParallel''"
| "classname ResnetGenerator = ''ResnetGenerator''"
| "classname ResnetBlock = ''ResnetBlock''"
| "classname UnetGenerator = ''UnetGenerator''"
| "classname (UnetSkipConnectionBlock _) = ''UnetSkipConnectionBlock''"
| "classname Block = ''Block''"
| "classname InvBlock = ''InvBlock''"
| "classname ConvnextGenerator = ''ConvnextGenerator''"
| "classname ConvnextBIGenerator = ''ConvnextBIGenerator''"
| "classname InvnextGenerator = ''InvnextGenerator''"
| "classname Discriminator_Classify = ''Discriminator_Classify''"
| "classname (Other s) = s"

subsection \<open>Library layers\<close>

text \<open>
  \<open>nn.Conv2d(i, o, kernel_size=k, stride=s, padding=p, groups=g, bias=b)\<close>: the weight has
  shape \<open>(o, i // g, k, k)\<close>; the bias attribute is \<open>None\<close> when \<open>bias=False\<close>.
\<close>

definition nn_Conv2d :: "nat \<Rightarrow> nat \<Rightarrow> nat \<Rightarrow> nat \<Rightarrow> nat \<Rightarrow> nat \<Rightarrow> bool \<Rightarrow> module" where
  "nn_Conv2d i o' k s p g b =
     Module (Conv2d i o' k s p g) (Param [o', i div g, k, k] Default)
       (if b then Param [o'] Default else IsNone) []"

text \<open>\<open>nn.ConvTranspose2d(i, o, kernel_size=k, stride=s, padding=p, output_padding=q, bias=b)\<close>\<close>

definition nn_ConvTranspose2d :: "nat \<Rightarrow> nat \<Rightarrow> nat \<Rightarrow> nat \<Rightarrow> nat \<Rightarrow> nat \<Rightarrow> bool \<Rightarrow> module" where
  "nn_ConvTranspose2d i o' k s p q b =
     Module (ConvTranspose2d i o' k s p q) (Param [i, o', k, k] Default)
       (if b then Param [o'] Default else IsNone) []"

definition nn_Linear :: "nat \<Rightarrow> nat \<Rightarrow> module" where
  "nn_Linear i o' = Module (Linear i o') (Param [o', i] Default) (Param [o'] Default) []"

text \<open>\<open>nn.BatchNorm2d(n)\<close>, affine with running statistics (the library's defaults).\<close>

definition nn_BatchNorm2d :: "nat \<Rightarrow> module" where
  "nn_BatchNorm2d n = Module (BatchNorm2d n) (Param [n] Default) (Param [n] Default) []"

text \<open>\<open>nn.InstanceNorm2d(n, affine=False, track_running_stats=False)\<close>: weight and bias are \<open>None\<close>.\<close>

definition nn_InstanceNorm2d :: "nat \<Rightarrow> module" where
  "nn_InstanceNorm2d n = Module (InstanceNorm2d n) IsNone IsNone []"

text \<open>A layer without parameters and without children.\<close>

definition plain :: "kind \<Rightarrow> module" where
  "plain k = Module k Absent Absent []"

definition nn_Sequential :: "module list \<Rightarrow> module" where
  "nn_Sequential ms = Module Sequential Absent Absent ms"

section \<open>Helper functions of the repository\<close>

subsection \<open>LayerNorm\<close>

text \<open>
  \<open>LayerNorm.__init__(self, normalized_shape, eps=1e-6, data_format="channels_last")\<close>.
  The first argument has no default: a call that omits it (\<open>None\<close> below) is rejected by
  the interpreter with a \<open>TypeError\<close> before the body runs.
\<close>

definition LayerNorm_init :: "nat option \<Rightarrow> string \<Rightarrow> error + module" where
  "LayerNorm_init normalized_shape data_format =
     (case normalized_shape of
        None \<Rightarrow> Inl TypeError
      | Some n \<Rightarrow>
          if data_format \<noteq> ''channels_last'' \<and> data_format \<noteq> ''channels_first''
          then Inl (NotImplementedError [])
          else Inr (Module (LayerNorm n data_format) (Param [n] (Constant 1)) (Param [n] (Constant 0)) []))"

subsection \<open>get_norm_layer\<close>

text \<open>
  The value bound to \<open>norm_layer\<close>: the class \<open>nn.BatchNorm2d\<close> or \<open>nn.InstanceNorm2d\<close>
  itself (the default argument of the generators), one of the two \<open>functools.partial\<close>
  objects, a \<open>LayerNorm\<close> instance, or the local function that returns \<open>Identity()\<close>.
\<close>

datatype norm_layer =
    BatchNorm2d_class
  | InstanceNorm2d_class
  | BatchNorm2d_partial
  | InstanceNorm2d_partial
  | LayerNorm_instance module
  | Identity_fn

definition get_norm_layer :: "string \<Rightarrow> error + norm_layer" where
  "get_norm_layer norm_type =
     (if norm_type = ''batch'' then Inr BatchNorm2d_partial
      else if norm_type = ''instance'' then Inr InstanceNorm2d_partial
      else if norm_type = ''layer'' then
        (case LayerNorm_init None ''channels_last'' of
           Inl e \<Rightarrow> Inl e
         | Inr m \<Rightarrow> Inr (LayerNorm_instance m))
      else if norm_type = ''none'' then Inr Identity_fn
      else Inl (NotImplementedError (''normalization layer ['' @ norm_type @ ''] is not found'')))"

text \<open>
  \<open>norm_layer(n)\<close>: calling the selected object on a channel count. A \<open>LayerNorm\<close> instance
  called on an integer runs its \<open>forward\<close> on that integer, which has no tensor methods.
\<close>

fun call_norm_layer :: "norm_layer \<Rightarrow> nat \<Rightarrow> error + module" where
  "call_norm_layer BatchNorm2d_class n = Inr (nn_BatchNorm2d n)"
| "call_norm_layer BatchNorm2d_partial n = Inr (nn_BatchNorm2d n)"
| "call_norm_layer InstanceNorm2d_class n = Inr (nn_InstanceNorm2d n)"
| "call_norm_layer InstanceNorm2d_partial n = Inr (nn_InstanceNorm2d n)"
| "call_norm_layer (LayerNorm_instance m) n = Inl TypeError"
| "call_norm_layer Identity_fn n = Inr (plain Identity)"

section \<open>Gradient penalty\<close>

text \<open>
  The tensor computations of \<open>cal_gradient_penalty\<close> belong to the tensor library and
  are parameters of the model, over an arbitrary tensor type:
  \<^item> \<open>rand_mix device real fake\<close> is the random convex combination of the two batches
    (the three statements of the \<open>mixed\<close> branch);
  \<^item> \<open>set_requires_grad\<close> marks a tensor for gradient tracking;
  \<^item> \<open>grad_penalty device disc interp real constant lambda_gp\<close> differentiates the
    discriminator output with respect to the interpolated input, flattens the gradient per
    sample and returns the weighted penalty together with the gradient.
  The scalar penalty is a real number.
\<close>

record 't torch =
  rand_mix :: "string \<Rightarrow> 't \<Rightarrow> 't \<Rightarrow> error + 't"
  set_requires_grad :: "'t \<Rightarrow> 't"
  grad_penalty :: "string \<Rightarrow> 't \<Rightarrow> 't \<Rightarrow> 't \<Rightarrow> real \<Rightarrow> real \<Rightarrow> error + real \<times> 't"

definition cal_gradient_penalty ::
  "'t torch \<Rightarrow> ('t \<Rightarrow> error + 't) \<Rightarrow> 't \<Rightarrow> 't \<Rightarrow> string \<Rightarrow> string \<Rightarrow> real \<Rightarrow> real
     \<Rightarrow> error + real \<times> 't option" where
  "cal_gradient_penalty th netD real_data fake_data device ty constant lambda_gp =
     (if lambda_gp > 0 then
        (case (if ty = ''real'' then Inr real_data
               else if ty = ''fake'' then Inr fake_data
               else if ty = ''mixed'' then rand_mix th device real_data fake_data
               else Inl (NotImplementedError (ty @ '' not implemented''))) of
           Inl e \<Rightarrow> Inl e
         | Inr interpolatesv \<Rightarrow>
             (case netD (set_requires_grad th interpolatesv) of
                Inl e \<Rightarrow> Inl e
              | Inr disc_interpolates \<Rightarrow>
                  (case grad_penalty th device disc_interpolates
                          (set_requires_grad th interpolatesv) real_data constant lambda_gp of
                     Inl e \<Rightarrow> Inl e
                   | Inr (gradient_penalty, gradients) \<Rightarrow>
                       Inr (gradient_penalty, Some gradients))))
      else Inr (0, None))"

text \<open>A small concrete instance of the library parameters, on lists of reals.\<close>

definition list_torch :: "real list torch" where
  "list_torch =
     \<lparr> rand_mix = (\<lambda>device a b. Inr (map2 (\<lambda>x y. x / 2 + y / 2) a b)),
       set_requires_grad = (\<lambda>x. x),
       grad_penalty = (\<lambda>device d i r c l. Inr (l * (sum_list d - c)\<^sup>2, i)) \<rparr>"

section \<open>Adversarial loss\<close>

subsection \<open>Tensors with values\<close>

text \<open>
  A tensor is its shape and its entries in row-major order; the entries are the real
  numbers that the floating-point values denote.
\<close>

record tensor =
  shape :: "nat list"
  data :: "real list"

text \<open>\<open>v.expand_as(p)\<close> for a zero-dimensional tensor \<open>v\<close>: every entry of the result is \<open>v\<close>.\<close>

definition expand_as :: "real \<Rightarrow> tensor \<Rightarrow> tensor" where
  "expand_as v p = \<lparr> shape = shape p, data = replicate (prod_list (shape p)) v \<rparr>"

subsection \<open>Floating-point labels\<close>

text \<open>The number of binary digits of a natural number.\<close>

fun bits :: "nat \<Rightarrow> nat" where
  "bits n = (if n = 0 then 0 else Suc (bits (n div 2)))"

declare bits.simps [simp del]

text \<open>
  Rounding of a natural number to \<open>p\<close> significant binary digits, to the nearest
  representable number and to the even one of two nearest.
\<close>

definition round_to :: "nat \<Rightarrow> nat \<Rightarrow> nat" where
  "round_to p n =
     (if bits n \<le> p then n
      else (let s = bits n - p; q = n div 2 ^ s; r = n mod 2 ^ s
            in (if 2 ^ s < 2 * r \<or> (2 * r = 2 ^ s \<and> odd q) then q + 1 else q) * 2 ^ s))"

text \<open>
  \<open>torch.tensor(k * 0.1)\<close> for a Python integer \<open>k\<close>. The double-precision constant
  \<open>0.1\<close> is \<open>3602879701896397 / 2 ^ 55\<close>; the product is rounded to the 53 digits of a
  double, and the tensor stores it rounded to the 24 digits of single precision. (Overflow
  and subnormal numbers do not arise for the integers that are drawn.)
\<close>

definition float32_tenths :: "int \<Rightarrow> real" where
  "float32_tenths k =
     real_of_int (sgn k * int (round_to 24 (round_to 53 (nat \<bar>k\<bar> * 3602879701896397)))) / 2 ^ 55"

subsection \<open>The library's loss modules\<close>

text \<open>
  The numerical reductions of the tensor library, over an arbitrary type of scalar results:
  \<open>t.mean()\<close>, the negation of a scalar, and the values of the mean squared error, of the
  binary cross entropy with logits and of the cross entropy against class indices (all with
  the default mean reduction).
\<close>

record 's tlib =
  t_mean :: "tensor \<Rightarrow> 's"
  t_neg :: "'s \<Rightarrow> 's"
  t_mse :: "tensor \<Rightarrow> tensor \<Rightarrow> 's"
  t_bce :: "tensor \<Rightarrow> tensor \<Rightarrow> 's"
  t_ce :: "tensor \<Rightarrow> nat list \<Rightarrow> 's"

datatype loss_module = MSELoss | CrossEntropyLoss | BCEWithLogitsLoss

text \<open>The target handed to a loss module: a float tensor or a vector of class indices.\<close>

datatype target = FloatT tensor | ClassT "nat list"

text \<open>
  \<open>nn.MSELoss()(p, t)\<close> and \<open>nn.BCEWithLogitsLoss()(p, t)\<close>. The loss component only ever
  passes a target of the prediction's own shape; for shapes that differ the model reports
  the library's size error.
\<close>

definition mse_loss :: "'s tlib \<Rightarrow> tensor \<Rightarrow> tensor \<Rightarrow> error + 's" where
  "mse_loss L p t =
     (if shape p \<noteq> shape t \<or> length (data p) \<noteq> length (data t) then Inl RuntimeError
      else Inr (t_mse L p t))"

definition bce_with_logits :: "'s tlib \<Rightarrow> tensor \<Rightarrow> tensor \<Rightarrow> error + 's" where
  "bce_with_logits L p t =
     (if shape p \<noteq> shape t \<or> length (data p) \<noteq> length (data t) then Inl ValueError
      else Inr (t_bce L p t))"

text \<open>
  \<open>nn.CrossEntropyLoss()(p, labels)\<close> for a vector of \<open>n\<close> class indices: the prediction must
  have shape \<open>(n, c)\<close> and every index must be below \<open>c\<close>.
\<close>

definition cross_entropy :: "'s tlib \<Rightarrow> tensor \<Rightarrow> nat list \<Rightarrow> error + 's" where
  "cross_entropy L p labels =
     (case shape p of
        [n, c] \<Rightarrow>
          if n \<noteq> length labels \<or> length (data p) \<noteq> n * c then Inl ValueError
          else if \<exists>l \<in> set labels. c \<le> l then Inl IndexError
          else Inr (t_ce L p labels)
      | _ \<Rightarrow> Inl ValueError)"

fun loss_call :: "'s tlib \<Rightarrow> loss_module \<Rightarrow> tensor \<Rightarrow> target \<Rightarrow> error + 's" where
  "loss_call L MSELoss p (FloatT t) = mse_loss L p t"
| "loss_call L BCEWithLogitsLoss p (FloatT t) = bce_with_logits L p t"
| "loss_call L CrossEntropyLoss p (ClassT l) = cross_entropy L p l"
| "loss_call L _ p _ = Inl RuntimeError"

text \<open>
  The reductions in exact real arithmetic, as one instance of the library: a scalar is a
  number or the not-a-number value of the mean of no entries.
\<close>

datatype scalar = Num real | NaN

fun neg :: "scalar \<Rightarrow> scalar" where
  "neg (Num x) = Num (- x)"
| "neg NaN = NaN"

definition avg :: "real list \<Rightarrow> scalar" where
  "avg xs = (if xs = [] then NaN else Num (sum_list xs / real (length xs)))"

definition exact_lib :: "scalar tlib" where
  "exact_lib =
     \<lparr> t_mean = (\<lambda>t. avg (data t)),
       t_neg = neg,
       t_mse = (\<lambda>p t. avg (map2 (\<lambda>x y. (x - y)\<^sup>2) (data p) (data t))),
       t_bce = (\<lambda>p t. avg (map2 (\<lambda>x y. max x 0 - x * y + ln (1 + exp (- \<bar>x\<bar>))) (data p) (data t))),
       t_ce = (\<lambda>p labels. avg (map (\<lambda>i. let c = shape p ! 1; row = take c (drop (i * c) (data p))
                                         in ln (sum_list (map exp row)) - row ! (labels ! i))
                                  [0..<shape p ! 0])) \<rparr>"

subsection \<open>GANLoss\<close>


record GANLoss =
  real_label :: real
  fake_label :: real
  A_label :: "nat list"
  B_label :: "nat list"
  gan_mode :: string
  loss :: "loss_module option"

text \<open>
  \<open>GANLoss.__init__(self, gan_mode)\<close>, where \<open>draw_real\<close> and \<open>draw_fake\<close> are the outcomes
  of \<open>random.randint(7, 12)\<close> and \<open>random.randint(0, 3)\<close>. Each label is the product of the
  draw and \<open>0.1\<close>, stored as a single-precision tensor. The buffers are registered before
  the mode is inspected.
\<close>

definition GANLoss_init :: "int \<Rightarrow> int \<Rightarrow> string \<Rightarrow> error + GANLoss" where
  "GANLoss_init draw_real draw_fake mode =
     (let target_real_label = float32_tenths draw_real;
          target_fake_label = float32_tenths draw_fake;
          self = \<lparr> real_label = target_real_label, fake_label = target_fake_label,
                   A_label = [1, 1, 1, 1], B_label = [0, 0, 0, 0],
                   gan_mode = mode, loss = None \<rparr>
      in if mode = ''lsgan'' then Inr (self\<lparr> loss := Some MSELoss \<rparr>)
         else if mode = ''binary'' then Inr (self\<lparr> loss := Some CrossEntropyLoss \<rparr>)
         else if mode = ''vanilla'' then Inr (self\<lparr> loss := Some BCEWithLogitsLoss \<rparr>)
         else if mode = ''wgangp'' then Inr (self\<lparr> loss := None \<rparr>)
         else Inl (NotImplementedError (''gan mode '' @ mode @ '' not implemented'')))"

definition get_target_tensor :: "GANLoss \<Rightarrow> tensor \<Rightarrow> bool \<Rightarrow> tensor" where
  "get_target_tensor self prediction target_is_real =
     (let target_tensor = (if target_is_real then real_label self else fake_label self)
      in expand_as target_tensor prediction)"

definition get_target_tensorAB :: "GANLoss \<Rightarrow> tensor \<Rightarrow> bool \<Rightarrow> nat list" where
  "get_target_tensorAB self prediction target_is_real =
     (if target_is_real then A_label self else B_label self)"

text \<open>
  \<open>GANLoss.__call__(self, prediction, target_is_real)\<close>. When no branch of the chain is
  taken, \<open>return loss\<close> reads a local variable that was never assigned. Calling the
  \<open>None\<close> stored in \<open>self.loss\<close> would be a \<open>TypeError\<close>.
\<close>

definition GANLoss_call :: "'s tlib \<Rightarrow> GANLoss \<Rightarrow> tensor \<Rightarrow> bool \<Rightarrow> error + 's" where
  "GANLoss_call L self prediction target_is_real =
     (if gan_mode self = ''lsgan'' \<or> gan_mode self = ''vanilla'' then
        (case loss self of
           None \<Rightarrow> Inl TypeError
         | Some l \<Rightarrow> loss_call L l prediction (FloatT (get_target_tensor self prediction target_is_real)))
      else if gan_mode self = ''binary'' then
        (case loss self of
           None \<Rightarrow> Inl TypeError
         | Some l \<Rightarrow> loss_call L l prediction (ClassT (get_target_tensorAB self prediction target_is_real)))
      else if gan_mode self = ''wgangp'' then
        (if target_is_real then Inr (t_neg L (t_mean L prediction))
         else Inr (t_mean L prediction))
      else Inl UnboundLocalError)"

text \<open>A well-formed tensor has as many entries as its shape says.\<close>

definition wf_tensor :: "tensor \<Rightarrow> bool" where
  "wf_tensor t = (length (data t) = prod_list (shape t))"

section \<open>Weight initialisation\<close>

text \<open>
  \<open>a.data\<close> for an attribute \<open>a\<close> of a module: the shape and the contents of the parameter;
  reading it from an absent attribute or from \<open>None\<close> raises.
\<close>

fun data_of :: "attr \<Rightarrow> error + nat list \<times> pdata" where
  "data_of (Param sh d) = Inr (sh, d)"
| "data_of _ = Inl AttributeError"

text \<open>
  The initialisers of the library, on the shape and contents of a tensor; the result records
  the distribution the tensor was filled from.
  \<^item> \<open>init.normal_(t, mean, std)\<close> rejects a negative standard deviation.
  \<^item> The fan-in and fan-out of a tensor need at least two dimensions: the second and the
    first dimension, each times the product of the remaining ones.
  \<^item> \<open>init.xavier_normal_(t, gain)\<close> divides by the sum of the fans and draws from a normal
    distribution of standard deviation \<open>gain * sqrt (2 / (fan_in + fan_out))\<close>.
  \<^item> \<open>init.kaiming_normal_(t, a=0, mode='fan_in')\<close> leaves a tensor with a zero dimension
    as it is; its standard deviation \<open>sqrt 2 / sqrt fan_in\<close> is positive.
  \<^item> \<open>init.orthogonal_(t, gain)\<close> needs two dimensions and leaves a tensor without
    elements as it is.
  \<^item> \<open>init.constant_(t, c)\<close> always succeeds.
\<close>

definition normal_init :: "nat list \<times> pdata \<Rightarrow> real \<Rightarrow> real \<Rightarrow> error + attr" where
  "normal_init t mean std =
     (if std < 0 then Inl RuntimeError else Inr (Param (fst t) (Normal mean std)))"

definition fan_in_and_fan_out :: "nat list \<Rightarrow> error + nat \<times> nat" where
  "fan_in_and_fan_out sh =
     (if length sh < 2 then Inl ValueError
      else (let receptive_field_size = prod_list (drop 2 sh)
            in Inr (sh ! 1 * receptive_field_size, sh ! 0 * receptive_field_size)))"

definition xavier_normal_init :: "nat list \<times> pdata \<Rightarrow> real \<Rightarrow> error + attr" where
  "xavier_normal_init t gain =
     ebind (fan_in_and_fan_out (fst t)) (\<lambda>(fan_in, fan_out).
       if fan_in + fan_out = 0 then Inl ZeroDivisionError
       else if gain * sqrt (2 / real (fan_in + fan_out)) < 0 then Inl RuntimeError
       else Inr (Param (fst t) (XavierNormal gain)))"

definition kaiming_normal_init :: "nat list \<times> pdata \<Rightarrow> error + attr" where
  "kaiming_normal_init t =
     (if 0 \<in> set (fst t) then Inr (Param (fst t) (snd t))
      else ebind (fan_in_and_fan_out (fst t)) (\<lambda>(fan_in, fan_out).
             Inr (Param (fst t) KaimingNormal)))"

definition orthogonal_init :: "nat list \<times> pdata \<Rightarrow> real \<Rightarrow> error + attr" where
  "orthogonal_init t gain =
     (if length (fst t) < 2 then Inl ValueError
      else if prod_list (fst t) = 0 then Inr (Param (fst t) (snd t))
      else Inr (Param (fst t) (Orthogonal gain)))"

definition constant_init :: "nat list \<times> pdata \<Rightarrow> real \<Rightarrow> attr" where
  "constant_init t c = Param (fst t) (Constant c)"

text \<open>\<open>hasattr(m, 'weight') and (classname.find('Conv') != -1 or classname.find('Linear') != -1)\<close>\<close>

definition conv_like :: "module \<Rightarrow> bool" where
  "conv_like m =
     (weight m \<noteq> Absent \<and>
      (found ''Conv'' (classname (kind m)) \<or> found ''Linear'' (classname (kind m))))"

text \<open>The local function \<open>init_func\<close> of \<open>init_weights\<close>, returning the module it mutated.\<close>

definition init_func :: "string \<Rightarrow> real \<Rightarrow> module \<Rightarrow> error + module" where
  "init_func init_type init_gain m =
     (if conv_like m then
        ebind
          (if init_type = ''normal'' then
             ebind (data_of (weight m)) (\<lambda>t. normal_init t 0 init_gain)
           else if init_type = ''xavier'' then
             ebind (data_of (weight m)) (\<lambda>t. xavier_normal_init t init_gain)
           else if init_type = ''kaiming'' then
             ebind (data_of (weight m)) kaiming_normal_init
           else if init_type = ''orthogonal'' then
             ebind (data_of (weight m)) (\<lambda>t. orthogonal_init t init_gain)
           else Inl (NotImplementedError
                  (''initialization method ['' @ init_type @ ''] is not implemented'')))
          (\<lambda>w.
             case bias m of
               Param sh d \<Rightarrow> Inr (Module (kind m) w (constant_init (sh, d) 0) (children m))
             | _ \<Rightarrow> Inr (Module (kind m) w (bias m) (children m)))
      else if found ''BatchNorm2d'' (classname (kind m)) then
        ebind (data_of (weight m)) (\<lambda>t.
        ebind (normal_init t 1 init_gain) (\<lambda>w.
        ebind (data_of (bias m)) (\<lambda>t'.
        Inr (Module (kind m) w (constant_init t' 0) (children m)))))
      else Inr m)"

text \<open>\<open>net.apply(fn)\<close>: the children first, in order, then the module itself.\<close>

fun apply_fn :: "(module \<Rightarrow> error + module) \<Rightarrow> module \<Rightarrow> error + module"
  and apply_children :: "(module \<Rightarrow> error + module) \<Rightarrow> module list \<Rightarrow> error + module list" where
  "apply_fn f (Module k w b cs) =
     (case apply_children f cs of
        Inl e \<Rightarrow> Inl e
      | Inr cs' \<Rightarrow> f (Module k w b cs'))"
| "apply_children f [] = Inr []"
| "apply_children f (c # cs) =
     (case apply_fn f c of
        Inl e \<Rightarrow> Inl e
      | Inr c' \<Rightarrow>
          (case apply_children f cs of
             Inl e \<Rightarrow> Inl e
           | Inr cs' \<Rightarrow> Inr (c' # cs')))"

text \<open>
  \<open>init_weights(net, init_type, init_gain)\<close>; the result is the network after the call.
  The line that the function prints is not part of the model.
\<close>

definition init_weights :: "module \<Rightarrow> string \<Rightarrow> real \<Rightarrow> error + module" where
  "init_weights net init_type init_gain = apply_fn (init_func init_type init_gain) net"

text \<open>\<open>net.modules()\<close>: the module and all its descendants.\<close>

fun modules :: "module \<Rightarrow> module list" where
  "modules (Module k w b cs) = Module k w b cs # concat (map modules cs)"

text \<open>
  The batch-norm branch of \<open>init_func\<close> succeeds on the module, if it is the branch taken:
  the module has a weight and a bias tensor (as every affine \<open>BatchNorm2d\<close> has) and the
  gain is not negative.
\<close>

fun is_param :: "attr \<Rightarrow> bool" where
  "is_param (Param _ _) = True"
| "is_param _ = False"

definition bn_ok :: "real \<Rightarrow> module \<Rightarrow> bool" where
  "bn_ok init_gain m =
     (if conv_like m then True
      else if found ''BatchNorm2d'' (classname (kind m))
      then is_param (weight m) \<and> is_param (bias m) \<and> 0 \<le> init_gain
      else True)"

text \<open>
  The devices: whether CUDA is available, the error that \<open>net.to(id)\<close> raises for a
  device id, if any, and the error that \<open>torch.nn.DataParallel(net, ids)\<close> raises for a list
  of ids, if any; the wrapper has the network as its only child. \<open>Involution2d\<close> is the
  constructor of the external involution layer, by input and output channels.
\<close>

record env =
  cuda_available :: bool
  to_device :: "int \<Rightarrow> error option"
  data_parallel :: "int list \<Rightarrow> error option"
  Involution2d :: "nat \<Rightarrow> nat \<Rightarrow> error + module"

definition init_net :: "env \<Rightarrow> module \<Rightarrow> string \<Rightarrow> real \<Rightarrow> int list \<Rightarrow> error + module" where
  "init_net E net init_type init_gain gpu_ids =
     (if length gpu_ids > 0 then
        (if \<not> cuda_available E then Inl AssertionError
         else (case to_device E (hd gpu_ids) of
                 Some e \<Rightarrow> Inl e
               | None \<Rightarrow>
                   (case data_parallel E gpu_ids of
                      Some e \<Rightarrow> Inl e
                    | None \<Rightarrow>
                        init_weights (Module DataParallel Absent Absent [net]) init_type init_gain)))
      else init_weights net init_type init_gain)"

section \<open>Forward passes\<close>

text \<open>
  The tensor library, over an arbitrary tensor type: the forward pass of a module that is
  not one of the containers and repository classes interpreted below (the flag says
  whether the module is in training mode), the addition of two tensors, and
  \<open>t.view(4, -1)\<close>.
\<close>

record 't nn =
  nn_layer :: "bool \<Rightarrow> module \<Rightarrow> 't \<Rightarrow> error + 't"
  nn_add :: "'t \<Rightarrow> 't \<Rightarrow> error + 't"
  nn_view4 :: "'t \<Rightarrow> error + 't"

text \<open>
  \<open>Sequential.forward\<close> feeds each child the output of the previous one.
  \<open>ResnetBlock.forward\<close> is \<open>x + self.conv_block(x)\<close>.
  \<open>Discriminator_Classify.forward\<close> is \<open>self.classify(self.conv(input).view(4, -1))\<close>.
\<close>

fun forward :: "'t nn \<Rightarrow> bool \<Rightarrow> module \<Rightarrow> 't \<Rightarrow> error + 't"
  and forward_seq :: "'t nn \<Rightarrow> bool \<Rightarrow> module list \<Rightarrow> 't \<Rightarrow> error + 't" where
  "forward L tr (Module k w b cs) x =
     (if k = Sequential then forward_seq L tr cs x
      else if k = ResnetBlock then
        (case cs of
           [conv_block] \<Rightarrow>
             (case forward L tr conv_block x of
                Inl e \<Rightarrow> Inl e
              | Inr y \<Rightarrow> nn_add L x y)
         | _ \<Rightarrow> Inl AttributeError)
      else if k = Discriminator_Classify then
        (case cs of
           [conv, classify] \<Rightarrow>
             (case forward L tr conv x of
                Inl e \<Rightarrow> Inl e
              | Inr conv_out \<Rightarrow>
                  (case nn_view4 L conv_out of
                     Inl e \<Rightarrow> Inl e
                   | Inr v \<Rightarrow> forward L tr classify v))
         | _ \<Rightarrow> Inl AttributeError)
      else nn_layer L tr (Module k w b cs) x)"
| "forward_seq L tr [] x = Inr x"
| "forward_seq L tr (m # ms) x =
     (case forward L tr m x of
        Inl e \<Rightarrow> Inl e
      | Inr y \<Rightarrow> forward_seq L tr ms y)"

subsection \<open>The library on shapes\<close>

text \<open>
  The output size of a convolution along one axis: \<open>(n + 2p - k) // s + 1\<close>; the padded
  input must not be smaller than the kernel.
\<close>

definition conv_size :: "nat \<Rightarrow> nat \<Rightarrow> nat \<Rightarrow> nat \<Rightarrow> error + nat" where
  "conv_size n k s p =
     (if s = 0 \<or> n + 2 * p < k then Inl RuntimeError else Inr ((n + 2 * p - k) div s + 1))"

text \<open>
  The shape that a library layer produces from a batched input shape
  \<open>[batch, channels, height, width]\<close>, or the error it raises; \<open>None\<close> for a class that is
  not one of these layers. Batch normalization in training mode needs more than one value
  per channel, instance normalization more than one spatial element; reflection padding
  must be smaller than the padded axis.
\<close>

fun lib_shape :: "bool \<Rightarrow> kind \<Rightarrow> nat list \<Rightarrow> (error + nat list) option" where
  "lib_shape tr (Conv2d i o' k s p g) x =
     Some (case x of
        [n, c, h, w] \<Rightarrow>
          if c \<noteq> i then Inl RuntimeError
          else (case conv_size h k s p of
                  Inl e \<Rightarrow> Inl e
                | Inr h' \<Rightarrow>
                    (case conv_size w k s p of
                       Inl e \<Rightarrow> Inl e
                     | Inr w' \<Rightarrow> Inr [n, o', h', w']))
      | _ \<Rightarrow> Inl RuntimeError)"
| "lib_shape tr (BatchNorm2d f) x =
     Some (case x of
        [n, c, h, w] \<Rightarrow>
          if c \<noteq> f then Inl RuntimeError
          else if tr \<and> n * h * w = 1 then Inl ValueError
          else Inr x
      | _ \<Rightarrow> Inl ValueError)"
| "lib_shape tr (InstanceNorm2d f) x =
     Some (case x of
        [n, c, h, w] \<Rightarrow> if h * w = 1 then Inl ValueError else Inr x
      | _ \<Rightarrow> Inl ValueError)"
| "lib_shape tr (ReflectionPad2d p) x =
     Some (case x of
        [n, c, h, w] \<Rightarrow>
          if h \<le> p \<or> w \<le> p then Inl RuntimeError else Inr [n, c, h + 2 * p, w + 2 * p]
      | _ \<Rightarrow> Inl RuntimeError)"
| "lib_shape tr (ReplicationPad2d p) x =
     Some (case x of
        [n, c, h, w] \<Rightarrow>
          if h = 0 \<or> w = 0 then Inl RuntimeError else Inr [n, c, h + 2 * p, w + 2 * p]
      | _ \<Rightarrow> Inl RuntimeError)"
| "lib_shape tr (Linear i o') x =
     Some (if x = [] \<or> last x \<noteq> i then Inl RuntimeError else Inr (butlast x @ [o']))"
| "lib_shape tr ReLU x = Some (Inr x)"
| "lib_shape tr LeakyReLU x = Some (Inr x)"
| "lib_shape tr Tanh x = Some (Inr x)"
| "lib_shape tr GELU x = Some (Inr x)"
| "lib_shape tr Dropout x = Some (Inr x)"
| "lib_shape tr Identity x = Some (Inr x)"
| "lib_shape tr _ x = None"

text \<open>The forward pass of any other class is a parameter \<open>ext\<close>.\<close>

definition layer_shape ::
  "(module \<Rightarrow> nat list \<Rightarrow> error + nat list) \<Rightarrow> bool \<Rightarrow> module \<Rightarrow> nat list \<Rightarrow> error + nat list" where
  "layer_shape ext tr m x = (case lib_shape tr (kind m) x of Some r \<Rightarrow> r | None \<Rightarrow> ext m x)"

text \<open>Broadcasting of two shapes, aligned at their last axes (here on reversed shapes).\<close>

fun bc_rev :: "nat list \<Rightarrow> nat list \<Rightarrow> error + nat list" where
  "bc_rev [] ys = Inr ys"
| "bc_rev (x # xs) [] = Inr (x # xs)"
| "bc_rev (x # xs) (y # ys) =
     (if x = y \<or> x = 1 \<or> y = 1 then
        (case bc_rev xs ys of
           Inl e \<Rightarrow> Inl e
         | Inr zs \<Rightarrow> Inr ((if x = 1 then y else x) # zs))
      else Inl RuntimeError)"

definition broadcast :: "nat list \<Rightarrow> nat list \<Rightarrow> error + nat list" where
  "broadcast x y = (case bc_rev (rev x) (rev y) of Inl e \<Rightarrow> Inl e | Inr z \<Rightarrow> Inr (rev z))"

text \<open>
  \<open>t.view(4, -1)\<close> on shapes: the number of elements must be a positive multiple of four
  (for an empty tensor the free dimension is ambiguous).
\<close>

definition view4_shape :: "nat list \<Rightarrow> error + nat list" where
  "view4_shape x =
     (if prod_list x = 0 \<or> prod_list x mod 4 \<noteq> 0 then Inl RuntimeError
      else Inr [4, prod_list x div 4])"

definition shape_nn :: "(module \<Rightarrow> nat list \<Rightarrow> error + nat list) \<Rightarrow> nat list nn" where
  "shape_nn ext = \<lparr> nn_layer = layer_shape ext, nn_add = broadcast, nn_view4 = view4_shape \<rparr>"

section \<open>Residual block\<close>

text \<open>
  One padding step of \<open>build_conv_block\<close>: the explicit padding layers to append and the
  value of \<open>p\<close> for the convolution that follows.
\<close>

definition padding :: "string \<Rightarrow> error + module list \<times> nat" where
  "padding padding_type =
     (if padding_type = ''reflect'' then Inr ([plain (ReflectionPad2d 1)], 0)
      else if padding_type = ''replicate'' then Inr ([plain (ReplicationPad2d 1)], 0)
      else if padding_type = ''zero'' then Inr ([], 1)
      else Inl (NotImplementedError (''padding ['' @ padding_type @ ''] is not implemented'')))"

text \<open>
  The list of layers that \<open>build_conv_block\<close> wraps into a \<open>Sequential\<close>
  (\<open>chans\<close> is the source's \<open>dim\<close>).
\<close>

definition conv_block_layers ::
  "nat \<Rightarrow> string \<Rightarrow> norm_layer \<Rightarrow> bool \<Rightarrow> bool \<Rightarrow> error + module list" where
  "conv_block_layers chans padding_type norm_layer use_dropout use_bias =
     (case padding padding_type of
        Inl e \<Rightarrow> Inl e
      | Inr (pad1, p1) \<Rightarrow>
          (case call_norm_layer norm_layer chans of
             Inl e \<Rightarrow> Inl e
           | Inr norm1 \<Rightarrow>
               (case padding padding_type of
                  Inl e \<Rightarrow> Inl e
                | Inr (pad2, p2) \<Rightarrow>
                    (case call_norm_layer norm_layer chans of
                       Inl e \<Rightarrow> Inl e
                     | Inr norm2 \<Rightarrow>
                         Inr (pad1 @ [nn_Conv2d chans chans 3 1 p1 1 use_bias, norm1, plain ReLU]
                              @ (if use_dropout then [plain Dropout] else [])
                              @ pad2 @ [nn_Conv2d chans chans 3 1 p2 1 use_bias, norm2])))))"

definition build_conv_block ::
  "nat \<Rightarrow> string \<Rightarrow> norm_layer \<Rightarrow> bool \<Rightarrow> bool \<Rightarrow> error + module" where
  "build_conv_block chans padding_type norm_layer use_dropout use_bias =
     (case conv_block_layers chans padding_type norm_layer use_dropout use_bias of
        Inl e \<Rightarrow> Inl e
      | Inr conv_block \<Rightarrow> Inr (nn_Sequential conv_block))"

text \<open>\<open>ResnetBlock.__init__(self, dim, padding_type, norm_layer, use_dropout, use_bias)\<close>\<close>

definition ResnetBlock_init ::
  "nat \<Rightarrow> string \<Rightarrow> norm_layer \<Rightarrow> bool \<Rightarrow> bool \<Rightarrow> error + module" where
  "ResnetBlock_init chans padding_type norm_layer use_dropout use_bias =
     (case build_conv_block chans padding_type norm_layer use_dropout use_bias of
        Inl e \<Rightarrow> Inl e
      | Inr conv_block \<Rightarrow> Inr (Module ResnetBlock Absent Absent [conv_block]))"

section \<open>Binary-classification discriminator\<close>

text \<open>\<open>Discriminator_Classify.__init__(self, input_nc, ndf=96)\<close>\<close>

definition Discriminator_Classify_init :: "nat \<Rightarrow> nat \<Rightarrow> module" where
  "Discriminator_Classify_init input_nc ndf =
     Module Discriminator_Classify Absent Absent
       [nn_Sequential
          [nn_Conv2d input_nc ndf 4 2 1 1 True, nn_BatchNorm2d ndf, plain LeakyReLU,
           nn_Conv2d ndf (ndf * 2) 4 2 1 1 True, nn_BatchNorm2d (ndf * 2), plain LeakyReLU,
           nn_Conv2d (ndf * 2) (ndf * 4) 4 2 1 1 True, nn_BatchNorm2d (ndf * 4), plain LeakyReLU,
           nn_Conv2d (ndf * 4) (ndf * 8) 4 2 1 1 True, nn_BatchNorm2d (ndf * 8), plain LeakyReLU,
           nn_Conv2d (ndf * 8) (ndf * 16) 4 2 1 1 True, nn_BatchNorm2d (ndf * 16), plain LeakyReLU,
           nn_Conv2d (ndf * 16) (ndf * 32) 3 2 1 1 True, nn_BatchNorm2d (ndf * 32), plain LeakyReLU],
        nn_Sequential [nn_Linear (ndf * 32 * 16) 2]]"

section \<open>Generators\<close>

text \<open>
  \<open>use_bias\<close>: for a \<open>functools.partial\<close> whether its function is \<open>nn.InstanceNorm2d\<close>,
  otherwise whether the object itself is that class.
\<close>

fun norm_use_bias :: "norm_layer \<Rightarrow> bool" where
  "norm_use_bias BatchNorm2d_class = False"
| "norm_use_bias InstanceNorm2d_class = True"
| "norm_use_bias BatchNorm2d_partial = False"
| "norm_use_bias InstanceNorm2d_partial = True"
| "norm_use_bias (LayerNorm_instance m) = False"
| "norm_use_bias Identity_fn = False"

subsection \<open>ResnetGenerator\<close>

text \<open>
  \<open>ResnetGenerator.__init__(self, input_nc, output_nc, ngf, norm_layer, use_dropout, n_blocks,
  padding_type)\<close>. The number of downsampling steps is the constant 2; \<open>int(ngf * mult / 2)\<close>
  is the exact half, \<open>mult\<close> being 4 or 2.
\<close>

definition ResnetGenerator_init ::
  "nat \<Rightarrow> nat \<Rightarrow> nat \<Rightarrow> norm_layer \<Rightarrow> bool \<Rightarrow> int \<Rightarrow> string \<Rightarrow> error + module" where
  "ResnetGenerator_init input_nc output_nc ngf norm_layer use_dropout n_blocks padding_type =
     (if \<not> (n_blocks \<ge> 0) then Inl AssertionError
      else
        (let use_bias = norm_use_bias norm_layer; n_downsampling = 2 in
         ebind (call_norm_layer norm_layer ngf) (\<lambda>norm0.
         ebind (emap (\<lambda>i. let mult = 2 ^ i in
                        ebind (call_norm_layer norm_layer (ngf * mult * 2)) (\<lambda>nm.
                          Inr [nn_Conv2d (ngf * mult) (ngf * mult * 2) 3 2 1 1 use_bias, nm, plain ReLU]))
                  [0..<n_downsampling]) (\<lambda>down.
         ebind (emap (\<lambda>i. ResnetBlock_init (ngf * 2 ^ n_downsampling) padding_type norm_layer
                             use_dropout use_bias)
                  [0..<nat n_blocks]) (\<lambda>blocks.
         ebind (emap (\<lambda>i. let mult = 2 ^ (n_downsampling - i) in
                        ebind (call_norm_layer norm_layer (ngf * mult div 2)) (\<lambda>nm.
                          Inr [nn_ConvTranspose2d (ngf * mult) (ngf * mult div 2) 3 2 1 1 use_bias,
                               nm, plain ReLU]))
                  [0..<n_downsampling]) (\<lambda>up.
         Inr (Module ResnetGenerator Absent Absent
                [nn_Sequential
                   ([plain (ReflectionPad2d 3), nn_Conv2d input_nc ngf 7 1 0 1 use_bias, norm0,
                     plain ReLU]
                    @ concat down @ blocks @ concat up
                    @ [plain (ReflectionPad2d 3), nn_Conv2d ngf output_nc 7 1 0 1 True,
                       plain Tanh])])))))))"

subsection \<open>UnetGenerator\<close>

text \<open>
  \<open>UnetSkipConnectionBlock.__init__(self, outer_nc, inner_nc, input_nc, submodule, outermost,
  innermost, norm_layer, use_dropout)\<close>. \<open>nn.Sequential\<close> registers a \<open>None\<close> submodule
  as an empty slot, which is not among the children of the container.
\<close>

definition UnetSkipConnectionBlock_init ::
  "nat \<Rightarrow> nat \<Rightarrow> nat option \<Rightarrow> module option \<Rightarrow> bool \<Rightarrow> bool \<Rightarrow> norm_layer \<Rightarrow> bool
     \<Rightarrow> error + module" where
  "UnetSkipConnectionBlock_init outer_nc inner_nc input_nc submodule outermost innermost
       norm_layer use_dropout =
     (let use_bias = norm_use_bias norm_layer;
          input_nc' = (case input_nc of None \<Rightarrow> outer_nc | Some n \<Rightarrow> n);
          downconv = nn_Conv2d input_nc' inner_nc 4 2 1 1 use_bias;
          downrelu = plain LeakyReLU in
      ebind (call_norm_layer norm_layer inner_nc) (\<lambda>downnorm.
      let uprelu = plain ReLU in
      ebind (call_norm_layer norm_layer outer_nc) (\<lambda>upnorm.
      ebind
        (if outermost then
           (let upconv = nn_ConvTranspose2d (inner_nc * 2) outer_nc 4 2 1 0 True in
            Inr ([downconv] @ (case submodule of None \<Rightarrow> [] | Some sm \<Rightarrow> [sm])
                 @ [uprelu, upconv, plain Tanh]))
         else if innermost then
           (let upconv = nn_ConvTranspose2d inner_nc outer_nc 4 2 1 0 use_bias in
            Inr ([downrelu, downconv] @ [uprelu, upconv, upnorm]))
         else
           (let upconv = nn_ConvTranspose2d (inner_nc * 2) outer_nc 4 2 1 0 use_bias in
            Inr ([downrelu, downconv, downnorm]
                 @ (case submodule of None \<Rightarrow> [] | Some sm \<Rightarrow> [sm])
                 @ [uprelu, upconv, upnorm]
                 @ (if use_dropout then [plain Dropout] else []))))
        (\<lambda>model. Inr (Module (UnetSkipConnectionBlock outermost) Absent Absent
                        [nn_Sequential model])))))"

text \<open>The loop that wraps the block \<open>n\<close> times in an intermediate level of width \<open>ngf * 8\<close>.\<close>

fun unet_intermediate :: "nat \<Rightarrow> nat \<Rightarrow> norm_layer \<Rightarrow> bool \<Rightarrow> module \<Rightarrow> error + module" where
  "unet_intermediate 0 ngf norm_layer use_dropout unet_block = Inr unet_block"
| "unet_intermediate (Suc n) ngf norm_layer use_dropout unet_block =
     ebind (UnetSkipConnectionBlock_init (ngf * 8) (ngf * 8) None (Some unet_block) False False
              norm_layer use_dropout)
       (unet_intermediate n ngf norm_layer use_dropout)"

text \<open>\<open>UnetGenerator.__init__(self, input_nc, output_nc, num_downs, ngf, norm_layer, use_dropout)\<close>\<close>

definition UnetGenerator_init ::
  "nat \<Rightarrow> nat \<Rightarrow> int \<Rightarrow> nat \<Rightarrow> norm_layer \<Rightarrow> bool \<Rightarrow> error + module" where
  "UnetGenerator_init input_nc output_nc num_downs ngf norm_layer use_dropout =
     ebind (UnetSkipConnectionBlock_init (ngf * 8) (ngf * 8) None None False True norm_layer False)
       (\<lambda>b0.
     ebind (unet_intermediate (nat (num_downs - 5)) ngf norm_layer use_dropout b0) (\<lambda>b1.
     ebind (UnetSkipConnectionBlock_init (ngf * 4) (ngf * 8) None (Some b1) False False norm_layer False)
       (\<lambda>b2.
     ebind (UnetSkipConnectionBlock_init (ngf * 2) (ngf * 4) None (Some b2) False False norm_layer False)
       (\<lambda>b3.
     ebind (UnetSkipConnectionBlock_init ngf (ngf * 2) None (Some b3) False False norm_layer False)
       (\<lambda>b4.
     ebind (UnetSkipConnectionBlock_init output_nc ngf (Some input_nc) (Some b4) True False norm_layer False)
       (\<lambda>model.
     Inr (Module UnetGenerator Absent Absent [model])))))))"

subsection \<open>ConvNeXt generators\<close>

text \<open>
  \<open>Block.__init__(self, dim, drop_path, layer_scale_init_value)\<close> (\<open>chans\<close> is the source's
  \<open>dim\<close>). The depthwise convolution has as many groups as channels, which must be
  positive. The layer-scale vector \<open>gamma\<close> is a parameter that is neither a weight nor a
  bias attribute and is not represented. \<open>InvBlock\<close> is the same with the external
  involution layer in place of the convolution.
\<close>

definition Block_init :: "nat \<Rightarrow> real \<Rightarrow> real \<Rightarrow> error + module" where
  "Block_init chans drop_path layer_scale_init_value =
     (if chans = 0 then Inl ValueError
      else
        ebind (LayerNorm_init (Some chans) ''channels_last'') (\<lambda>norm.
        Inr (Module Block Absent Absent
               [nn_Conv2d chans chans 3 1 1 chans True, norm, nn_Linear chans (4 * chans),
                plain GELU, nn_Linear (4 * chans) chans,
                if drop_path > 0 then plain (Other ''DropPath'') else plain Identity])))"

definition InvBlock_init :: "env \<Rightarrow> nat \<Rightarrow> real \<Rightarrow> real \<Rightarrow> error + module" where
  "InvBlock_init E chans drop_path layer_scale_init_value =
     ebind (Involution2d E chans chans) (\<lambda>dwconv.
     ebind (LayerNorm_init (Some chans) ''channels_last'') (\<lambda>norm.
     Inr (Module InvBlock Absent Absent
            [dwconv, norm, nn_Linear chans (4 * chans), plain GELU, nn_Linear (4 * chans) chans,
             if drop_path > 0 then plain (Other ''DropPath'') else plain Identity])))"

text \<open>
  The four stages of blocks, for the default \<open>depths=[3, 3, 9, 3]\<close>,
  \<open>dims=[96, 192, 384, 768]\<close> and \<open>drop_path_rate=0.\<close> (every entry of \<open>dp_rates\<close> is 0).
\<close>

definition stages :: "(nat \<Rightarrow> real \<Rightarrow> real \<Rightarrow> error + module) \<Rightarrow> error + module" where
  "stages block =
     (let depths = [3, 3, 9, 3]; dims = [96, 192, 384, 768] in
      ebind (emap (\<lambda>i. ebind (emap (\<lambda>j. block (dims ! i) 0 (1 / 1000000)) [0..<depths ! i])
                          (\<lambda>bs. Inr (nn_Sequential bs)))
               [0..<4])
        (\<lambda>ss. Inr (Module ModuleList Absent Absent ss)))"

text \<open>A convolution, transposed convolution or resize step followed by a channels-first \<open>LayerNorm\<close>.\<close>

definition with_norm :: "module list \<Rightarrow> nat \<Rightarrow> error + module" where
  "with_norm ms n =
     ebind (LayerNorm_init (Some n) ''channels_first'') (\<lambda>norm. Inr (nn_Sequential (ms @ [norm])))"

text \<open>\<open>ConvnextGenerator.__init__(self, input_nc, output_nc, ngf)\<close> with the default keyword arguments.\<close>

definition ConvnextGenerator_init :: "nat \<Rightarrow> nat \<Rightarrow> nat \<Rightarrow> error + module" where
  "ConvnextGenerator_init input_nc output_nc ngf =
     (let features = ngf in
      ebind (stages Block_init) (\<lambda>Convnextblock.
      ebind (with_norm [nn_Conv2d input_nc features 4 4 0 1 True] features) (\<lambda>encoder1.
      ebind (with_norm [nn_Conv2d features (features * 2) 2 2 0 1 True] (features * 2)) (\<lambda>encoder2.
      ebind (with_norm [nn_Conv2d (features * 2) (features * 4) 2 2 0 1 True] (features * 4)) (\<lambda>encoder3.
      ebind (with_norm [nn_Conv2d (features * 4) (features * 8) 2 2 0 1 True] (features * 8)) (\<lambda>encoder4.
      ebind (with_norm [nn_ConvTranspose2d (features * 8) (features * 4) 2 2 0 0 True] (features * 4)) (\<lambda>decoder4.
      ebind (with_norm [nn_ConvTranspose2d (features * 4) (features * 2) 2 2 0 0 True] (features * 2)) (\<lambda>decoder3.
      ebind (with_norm [nn_ConvTranspose2d (features * 2) features 2 2 0 0 True] features) (\<lambda>decoder2.
      ebind (with_norm [nn_ConvTranspose2d features output_nc 4 4 0 0 True] output_nc) (\<lambda>decoder1.
      ebind (with_norm [nn_ConvTranspose2d (features * 8) (features * 4) 3 1 1 0 False] (features * 4)) (\<lambda>upconv4.
      ebind (with_norm [nn_ConvTranspose2d (features * 4) (features * 2) 3 1 1 0 False] (features * 2)) (\<lambda>upconv3.
      ebind (with_norm [nn_ConvTranspose2d (features * 2) features 3 1 1 0 False] features) (\<lambda>upconv2.
      ebind (with_norm [nn_ConvTranspose2d (features * 8) (features * 4) 3 1 1 0 False] (features * 4)) (\<lambda>upconv1.
      Inr (Module ConvnextGenerator Absent Absent
             [Convnextblock, encoder1, encoder2, encoder3, encoder4,
              decoder4, decoder3, decoder2, decoder1,
              upconv4, upconv3, upconv2, upconv1, plain Tanh])))))))))))))))"

text \<open>\<open>ConvnextBIGenerator.__init__(self, input_nc, output_nc, ngf)\<close> with the default keyword arguments.\<close>

definition ConvnextBIGenerator_init :: "nat \<Rightarrow> nat \<Rightarrow> nat \<Rightarrow> error + module" where
  "ConvnextBIGenerator_init input_nc output_nc ngf =
     (let features = ngf in
      ebind (stages Block_init) (\<lambda>Convnextblock.
      ebind (with_norm [nn_Conv2d input_nc features 4 4 0 1 True] features) (\<lambda>encoder1.
      ebind (with_norm [nn_Conv2d features (features * 2) 2 2 0 1 True] (features * 2)) (\<lambda>encoder2.
      ebind (with_norm [nn_Conv2d (features * 2) (features * 4) 2 2 0 1 True] (features * 4)) (\<lambda>encoder3.
      ebind (with_norm [nn_Conv2d (features * 4) (features * 8) 2 2 0 1 True] (features * 8)) (\<lambda>encoder4.
      ebind (with_norm [plain (Resize 14 14), nn_Conv2d (features * 8) (features * 4) 1 1 0 1 True]
               (features * 4)) (\<lambda>decoder4.
      ebind (with_norm [plain (Resize 28 28), nn_Conv2d (features * 4) (features * 2) 1 1 0 1 True]
               (features * 2)) (\<lambda>decoder3.
      ebind (with_norm [nn_ConvTranspose2d (features * 2) features 2 2 0 0 True] features) (\<lambda>decoder2.
      ebind (with_norm [nn_ConvTranspose2d features output_nc 4 4 0 0 True] output_nc) (\<lambda>decoder1.
      ebind (with_norm [plain (Resize 224 224), nn_ConvTranspose2d output_nc output_nc 1 1 0 0 True]
               output_nc) (\<lambda>decoder0.
      ebind (with_norm [nn_Conv2d (features * 8) (features * 4) 3 1 1 1 False] (features * 4)) (\<lambda>upconv4.
      ebind (with_norm [nn_Conv2d (features * 4) (features * 2) 3 1 1 1 False] (features * 2)) (\<lambda>upconv3.
      ebind (with_norm [nn_Conv2d (features * 2) features 3 1 1 1 False] features) (\<lambda>upconv2.
      ebind (with_norm [nn_Conv2d (features * 8) (features * 4) 3 1 1 1 False] (features * 4)) (\<lambda>upconv1.
      Inr (Module ConvnextBIGenerator Absent Absent
             [Convnextblock, encoder1, encoder2, encoder3, encoder4,
              decoder4, decoder3, decoder2, decoder1, decoder0,
              upconv4, upconv3, upconv2, upconv1, plain Tanh]))))))))))))))))"

text \<open>\<open>InvnextGenerator.__init__(self, input_nc, output_nc, ngf)\<close> with the default keyword arguments.\<close>

definition InvnextGenerator_init :: "env \<Rightarrow> nat \<Rightarrow> nat \<Rightarrow> nat \<Rightarrow> error + module" where
  "InvnextGenerator_init E input_nc output_nc ngf =
     (let features = ngf in
      ebind (stages (InvBlock_init E)) (\<lambda>InvnextBlock.
      ebind (with_norm [nn_Conv2d input_nc features 4 4 0 1 True] features) (\<lambda>encoder1.
      ebind (with_norm [nn_Conv2d features (features * 2) 2 2 0 1 True] (features * 2)) (\<lambda>encoder2.
      ebind (with_norm [nn_Conv2d (features * 2) (features * 4) 2 2 0 1 True] (features * 4)) (\<lambda>encoder3.
      ebind (with_norm [nn_Conv2d (features * 4) (features * 8) 2 2 0 1 True] (features * 8)) (\<lambda>encoder4.
      ebind (with_norm [nn_ConvTranspose2d (features * 8) (features * 4) 2 2 0 0 True] (features * 4)) (\<lambda>decoder4.
      ebind (with_norm [nn_ConvTranspose2d (features * 4) (features * 2) 2 2 0 0 True] (features * 2)) (\<lambda>decoder3.
      ebind (with_norm [nn_ConvTranspose2d (features * 2) features 2 2 0 0 True] features) (\<lambda>decoder2.
      ebind (with_norm [nn_ConvTranspose2d features output_nc 4 4 0 0 True] output_nc) (\<lambda>decoder1.
      ebind (with_norm [nn_ConvTranspose2d (features * 8) (features * 4) 3 1 1 0 False] (features * 4)) (\<lambda>upconv4.
      ebind (with_norm [nn_ConvTranspose2d (features * 4) (features * 2) 3 1 1 0 False] (features * 2)) (\<lambda>upconv3.
      ebind (with_norm [nn_ConvTranspose2d (features * 2) features 3 1 1 0 False] features) (\<lambda>upconv2.
      ebind (with_norm [nn_ConvTranspose2d (features * 8) (features * 4) 3 1 1 0 False] (features * 4)) (\<lambda>upconv1.
      Inr (Module InvnextGenerator Absent Absent
             [InvnextBlock, encoder1, encoder2, encoder3, encoder4,
              decoder4, decoder3, decoder2, decoder1,
              upconv4, upconv3, upconv2, upconv1, plain Tanh])))))))))))))))"

subsection \<open>define_G\<close>

text \<open>
  \<open>define_G(input_nc, output_nc, ngf, netG, norm, use_dropout, init_type, init_gain, gpu_ids)\<close>
  (\<open>norm_name\<close> is the source's \<open>norm\<close>). The normalization is selected before the
  generator name is inspected.
\<close>

definition define_G ::
  "env \<Rightarrow> nat \<Rightarrow> nat \<Rightarrow> nat \<Rightarrow> string \<Rightarrow> string \<Rightarrow> bool \<Rightarrow> string \<Rightarrow> real \<Rightarrow> int list
     \<Rightarrow> error + module" where
  "define_G E input_nc output_nc ngf netG norm_name use_dropout init_type init_gain gpu_ids =
     ebind (get_norm_layer norm_name) (\<lambda>norm_layer.
     ebind
       (if netG = ''resnet_9blocks'' then
          ResnetGenerator_init input_nc output_nc ngf BatchNorm2d_class use_dropout 9 ''reflect''
        else if netG = ''resnet_6blocks'' then
          ResnetGenerator_init input_nc output_nc ngf BatchNorm2d_class use_dropout 6 ''reflect''
        else if netG = ''resnet_1blocks'' then
          ResnetGenerator_init input_nc output_nc ngf norm_layer use_dropout 1 ''reflect''
        else if netG = ''convnext'' then ConvnextGenerator_init input_nc output_nc ngf
        else if netG = ''invnext'' then InvnextGenerator_init E input_nc output_nc ngf
        else if netG = ''Convnext_Interpolation'' then ConvnextBIGenerator_init input_nc output_nc ngf
        else if netG = ''unet_128'' then
          UnetGenerator_init input_nc output_nc 7 ngf norm_layer use_dropout
        else if netG = ''unet_256'' then
          UnetGenerator_init input_nc output_nc 8 ngf norm_layer use_dropout
        else Inl (NotImplementedError (''Generator model name ['' @ netG @ ''] is not recognized'')))
       (\<lambda>net. init_net E net init_type init_gain gpu_ids))"

text \<open>
  A network on which \<open>init_weights\<close> with a known method and a gain that is not negative
  cannot raise: every module that \<open>init_func\<close> treats as a convolution or linear layer has
  a weight tensor of at least two dimensions with a positive fan-in or fan-out, and every
  other module named like a batch normalization has weight and bias tensors.
\<close>

definition init_safe1 :: "module \<Rightarrow> bool" where
  "init_safe1 m =
     (if conv_like m then
        (case weight m of
           Param sh d \<Rightarrow> 2 \<le> length sh \<and> 0 < (sh ! 0 + sh ! 1) * prod_list (drop 2 sh)
         | _ \<Rightarrow> False)
      else if found ''BatchNorm2d'' (classname (kind m)) then is_param (weight m) \<and> is_param (bias m)
      else True)"

definition init_safe :: "module \<Rightarrow> bool" where
  "init_safe net = list_all init_safe1 (modules net)"

text \<open>The error that \<open>init_func\<close> raises for an unknown initialisation method.\<close>

definition nie_msg :: "string \<Rightarrow> error" where
  "nie_msg it = NotImplementedError (''initialization method ['' @ it @ ''] is not implemented'')"

text \<open>
  An environment without CUDA, in which the involution layer is a module holding one
  pointwise convolution.
\<close>

definition cpu_env :: env where
  "cpu_env =
     \<lparr> cuda_available = False,
       to_device = (\<lambda>i. Some RuntimeError),
       data_parallel = (\<lambda>ids. None),
       Involution2d = (\<lambda>i o'. Inr (Module (Other ''Involution2d'') Absent Absent
                                      [nn_Conv2d i o' 1 1 0 1 False])) \<rparr>"

text \<open>The same with one CUDA device, number 0, to which networks can be moved.\<close>

definition gpu_env :: env where
  "gpu_env =
     cpu_env \<lparr> cuda_available := True,
               to_device := (\<lambda>i. if i = 0 then None else Some RuntimeError),
               data_parallel := (\<lambda>ids. if ids = [0] then None else Some RuntimeError) \<rparr>"

section \<open>Results: normalization selector\<close>

text \<open>
  C1 (the part the code breaks): for the policy name \<open>layer\<close> the selector does not return a
  callable; it constructs \<open>LayerNorm()\<close> without the required shape argument, which raises
  a \<open>TypeError\<close>.
\<close>

theorem get_norm_layer_layer_raises: "get_norm_layer ''layer'' = Inl TypeError"
  by (simp add: get_norm_layer_def LayerNorm_init_def)

text \<open>
  The other three names return a callable that yields a normalization module for the given
  channel count (the identity module for \<open>none\<close>), and every name outside the four is
  rejected with the unrecognized-policy error.
\<close>

lemma get_norm_layer_others:
  "(\<exists>f. get_norm_layer ''batch'' = Inr f \<and> call_norm_layer f n = Inr (nn_BatchNorm2d n))
   \<and> (\<exists>f. get_norm_layer ''instance'' = Inr f \<and> call_norm_layer f n = Inr (nn_InstanceNorm2d n))
   \<and> (\<exists>f. get_norm_layer ''none'' = Inr f \<and> call_norm_layer f n = Inr (plain Identity))"
  by (simp add: get_norm_layer_def)

lemma get_norm_layer_unknown:
  "norm_type \<notin> {''batch'', ''instance'', ''layer'', ''none''} \<Longrightarrow>
   get_norm_layer norm_type =
     Inl (NotImplementedError (''normalization layer ['' @ norm_type @ ''] is not found''))"
  by (simp add: get_norm_layer_def)

section \<open>Results: gradient penalty\<close>

text \<open>
  C5 as stated fails: with a non-positive penalty weight the interpolation type is never
  inspected, and an unknown type name returns the zero penalty.
\<close>

theorem cal_gradient_penalty_unknown_type_zero_weight:
  "cal_gradient_penalty list_torch (\<lambda>x. Inr x) [1, 2] [3, 4] ''cpu'' ''nearest'' 1 0
     = Inr (0, None)"
  by (simp add: cal_gradient_penalty_def)

text \<open>
  C5 (amended): for every interpolation-type name outside \<open>{real, fake, mixed}\<close> and every
  positive penalty weight, \<open>cal_gradient_penalty\<close> fails with the unimplemented-policy
  error naming the type, whatever the other arguments are.
\<close>

theorem cal_gradient_penalty_unknown_type:
  assumes "ty \<notin> {''real'', ''fake'', ''mixed''}" and "0 < lambda_gp"
  shows "cal_gradient_penalty th netD real_data fake_data device ty constant lambda_gp
           = Inl (NotImplementedError (ty @ '' not implemented''))"
  using assms by (simp add: cal_gradient_penalty_def)

theorem cal_gradient_penalty_unknown_type_witness:
  "''nearest'' \<notin> {''real'', ''fake'', ''mixed''} \<and> (0::real) < 10 \<and>
   cal_gradient_penalty list_torch (\<lambda>x. Inr x) [1, 2] [3, 4] ''cpu'' ''nearest'' 1 10
     = Inl (NotImplementedError ''nearest not implemented'')"
proof -
  have a: "''nearest'' \<notin> {''real'', ''fake'', ''mixed''}" by simp
  have b: "(0::real) < 10" by simp
  show ?thesis
    using a b cal_gradient_penalty_unknown_type [OF a b, of list_torch "\<lambda>x. Inr x" "[1, 2]" "[3, 4]" "''cpu''" 1]
    by simp
qed

text \<open>
  C6: for every penalty weight less than or equal to zero, \<open>cal_gradient_penalty\<close> returns
  the pair of the zero penalty and no gradient, whatever the discriminator, the batches, the
  interpolation type and the target-norm constant are.
\<close>

theorem cal_gradient_penalty_nonpositive_weight:
  assumes "lambda_gp \<le> 0"
  shows "cal_gradient_penalty th netD real_data fake_data device ty constant lambda_gp
           = Inr (0, None)"
  using assms by (simp add: cal_gradient_penalty_def)

theorem cal_gradient_penalty_nonpositive_weight_witness:
  "(- 3::real) \<le> 0 \<and>
   cal_gradient_penalty list_torch (\<lambda>x. Inl RuntimeError) [1, 2] [3] ''cpu'' ''mixed'' 1 (- 3)
     = Inr (0, None)"
proof -
  have a: "(- 3::real) \<le> 0" by simp
  show ?thesis
    using a cal_gradient_penalty_nonpositive_weight [OF a, of list_torch "\<lambda>x. Inl RuntimeError" "[1, 2]" "[3]" "''cpu''" "''mixed''" 1]
    by simp
qed

section \<open>Results: adversarial loss\<close>

lemma float32_tenths_values:
  "float32_tenths 0 = 0"
  "float32_tenths 1 = 13421773 / 134217728"
  "float32_tenths 2 = 13421773 / 67108864"
  "float32_tenths 3 = 5033165 / 16777216"
  "float32_tenths 7 = 11744051 / 16777216"
  "float32_tenths 8 = 13421773 / 16777216"
  "float32_tenths 9 = 7549747 / 8388608"
  "float32_tenths 10 = 1"
  "float32_tenths 11 = 9227469 / 8388608"
  "float32_tenths 12 = 5033165 / 4194304"
  by (simp_all add: float32_tenths_def round_to_def bits.simps Let_def)









text \<open>
  C4: for a loss component constructed in mode \<open>wgangp\<close> (whatever labels were drawn), for
  every tensor library and every prediction tensor, the returned loss is the library's
  negation of the library's mean of the prediction when the real flag is true, and the
  library's mean of the prediction when it is false.
\<close>

theorem GANLoss_wgangp:
  "\<exists>g. GANLoss_init draw_real draw_fake ''wgangp'' = Inr g \<and>
     (\<forall>L prediction.
        GANLoss_call L g prediction True = Inr (t_neg L (t_mean L prediction)) \<and>
        GANLoss_call L g prediction False = Inr (t_mean L prediction))"
  by (simp add: GANLoss_init_def GANLoss_call_def)

text \<open>In exact arithmetic: the prediction with entries 1, 2 and 6 has the losses -3 and 3.\<close>

theorem GANLoss_wgangp_witness:
  "\<exists>g. GANLoss_init 9 1 ''wgangp'' = Inr g \<and>
     GANLoss_call exact_lib g \<lparr> shape = [3], data = [1, 2, 6] \<rparr> True = Inr (Num (- 3)) \<and>
     GANLoss_call exact_lib g \<lparr> shape = [3], data = [1, 2, 6] \<rparr> False = Inr (Num 3)"
proof -
  obtain g where g: "GANLoss_init 9 1 ''wgangp'' = Inr g"
    and c: "\<And>(L :: scalar tlib) prediction.
        GANLoss_call L g prediction True = Inr (t_neg L (t_mean L prediction)) \<and>
        GANLoss_call L g prediction False = Inr (t_mean L prediction)"
    using GANLoss_wgangp [of 9 1] by blast
  have m: "t_mean exact_lib \<lparr> shape = [3], data = [1, 2, 6] \<rparr> = Num 3"
    by (simp add: exact_lib_def avg_def)
  have n: "t_neg exact_lib (Num 3) = Num (- 3)"
    by (simp add: exact_lib_def)
  from g c [of exact_lib "\<lparr> shape = [3], data = [1, 2, 6] \<rparr>"] m n show ?thesis by simp
qed

lemma loss_call_float_total:
  assumes "l = MSELoss \<or> l = BCEWithLogitsLoss" and "wf_tensor p"
  shows "\<exists>v. loss_call L l p (FloatT (expand_as x p)) = Inr v"
  using assms by (auto simp add: wf_tensor_def expand_as_def mse_loss_def bce_with_logits_def)

text \<open>
  C10: every successfully constructed \<open>GANLoss\<close> has its mode among \<open>lsgan\<close>, \<open>vanilla\<close>,
  \<open>binary\<close> and \<open>wgangp\<close>, so a call never reaches the fall-through in which no loss was
  assigned (nor calls a missing loss module); in the modes \<open>lsgan\<close>, \<open>vanilla\<close> and
  \<open>wgangp\<close> every call on a well-formed prediction returns a loss value. In mode
  \<open>binary\<close> the only failures are the library's checks of the prediction's shape against
  the four class labels.
\<close>

theorem GANLoss_call_defined:
  assumes "GANLoss_init draw_real draw_fake mode = Inr g"
  shows "gan_mode g \<in> {''lsgan'', ''vanilla'', ''binary'', ''wgangp''} \<and>
         GANLoss_call L g prediction target_is_real \<noteq> Inl UnboundLocalError \<and>
         GANLoss_call L g prediction target_is_real \<noteq> Inl TypeError \<and>
         (gan_mode g \<noteq> ''binary'' \<and> wf_tensor prediction \<longrightarrow>
            (\<exists>v. GANLoss_call L g prediction target_is_real = Inr v))"
proof -
  from assms have m: "mode \<in> {''lsgan'', ''vanilla'', ''binary'', ''wgangp''}"
    by (auto simp add: GANLoss_init_def Let_def split: if_splits)
  from assms have g: "gan_mode g = mode"
    by (auto simp add: GANLoss_init_def Let_def split: if_splits)
  from assms have l: "mode = ''lsgan'' \<Longrightarrow> loss g = Some MSELoss"
    "mode = ''vanilla'' \<Longrightarrow> loss g = Some BCEWithLogitsLoss"
    "mode = ''binary'' \<Longrightarrow> loss g = Some CrossEntropyLoss"
    by (auto simp add: GANLoss_init_def Let_def split: if_splits)
  have ce: "cross_entropy L prediction ls \<noteq> Inl UnboundLocalError
              \<and> cross_entropy L prediction ls \<noteq> Inl TypeError" for ls
    by (auto simp add: cross_entropy_def split: list.splits)
  show ?thesis
    using m g l ce loss_call_float_total [of MSELoss prediction L]
      loss_call_float_total [of BCEWithLogitsLoss prediction L]
    by (auto simp add: GANLoss_call_def get_target_tensor_def mse_loss_def bce_with_logits_def)
qed

theorem GANLoss_call_defined_witness:
  "GANLoss_init 7 0 ''lsgan''
     = Inr \<lparr> real_label = 11744051 / 16777216, fake_label = 0, A_label = [1, 1, 1, 1],
             B_label = [0, 0, 0, 0], gan_mode = ''lsgan'', loss = Some MSELoss \<rparr> \<and>
   GANLoss_call exact_lib \<lparr> real_label = 11744051 / 16777216, fake_label = 0, A_label = [1, 1, 1, 1],
             B_label = [0, 0, 0, 0], gan_mode = ''lsgan'', loss = Some MSELoss \<rparr>
       \<lparr> shape = [2], data = [1 / 2, 9 / 10] \<rparr> True \<noteq> Inl UnboundLocalError \<and>
   (\<exists>v. GANLoss_call exact_lib \<lparr> real_label = 11744051 / 16777216, fake_label = 0, A_label = [1, 1, 1, 1],
             B_label = [0, 0, 0, 0], gan_mode = ''lsgan'', loss = Some MSELoss \<rparr>
       \<lparr> shape = [2], data = [1 / 2, 9 / 10] \<rparr> True = Inr v)"
proof -
  have a: "GANLoss_init 7 0 ''lsgan''
     = Inr \<lparr> real_label = 11744051 / 16777216, fake_label = 0, A_label = [1, 1, 1, 1],
             B_label = [0, 0, 0, 0], gan_mode = ''lsgan'', loss = Some MSELoss \<rparr>"
    by (simp add: GANLoss_init_def float32_tenths_values)
  have w: "wf_tensor \<lparr> shape = [2], data = [1 / 2, 9 / 10] \<rparr>"
    by (simp add: wf_tensor_def)
  show ?thesis
    using a w GANLoss_call_defined [OF a, of exact_lib "\<lparr> shape = [2], data = [1 / 2, 9 / 10] \<rparr>" True]
    by simp
qed

section \<open>Results: weight initialisation\<close>

lemma ebind_simps [simp]: "ebind (Inr x) f = f x" "ebind (Inl e) f = Inl e"
  by (simp_all add: ebind_def)

lemma ebind_Inr_iff: "ebind m f = Inr y \<longleftrightarrow> (\<exists>x. m = Inr x \<and> f x = Inr y)"
  by (cases m) auto

lemma ebind_Inl_iff: "ebind m f = Inl e \<longleftrightarrow> m = Inl e \<or> (\<exists>x. m = Inr x \<and> f x = Inl e)"
  by (cases m) auto

lemma data_of_not_nie: "data_of a \<noteq> Inl (NotImplementedError msg)"
  by (cases a) auto

lemma normal_init_not_nie: "normal_init t mean std \<noteq> Inl (NotImplementedError msg)"
  by (simp add: normal_init_def)

lemma init_func_not_conv_like:
  "\<not> conv_like m \<Longrightarrow> init_func it g m \<noteq> Inl (NotImplementedError msg)"
  using data_of_not_nie normal_init_not_nie
  by (auto simp add: init_func_def ebind_Inl_iff)

lemma conv_like_children: "conv_like (Module k w b cs') = conv_like (Module k w b cs)"
  by (simp add: conv_like_def)

lemma bn_ok_children: "bn_ok g (Module k w b cs') = bn_ok g (Module k w b cs)"
  by (simp add: bn_ok_def conv_like_def)

lemma apply_no_conv_like:
  "(\<forall>x \<in> set (modules m). \<not> conv_like x) \<longrightarrow> apply_fn (init_func it g) m \<noteq> Inl (NotImplementedError msg)"
  "(\<forall>c \<in> set cs. \<forall>x \<in> set (modules c). \<not> conv_like x) \<longrightarrow> apply_children (init_func it g) cs \<noteq> Inl (NotImplementedError msg)"
proof (induction "init_func it g" m and "init_func it g" cs rule: apply_fn_apply_children.induct)
  case (1 k w b cs)
  show ?case
  proof
    assume a: "\<forall>x \<in> set (modules (Module k w b cs)). \<not> conv_like x"
    then have nc: "\<not> conv_like (Module k w b cs)" by simp
    from a have ch: "\<forall>c \<in> set cs. \<forall>x \<in> set (modules c). \<not> conv_like x" by auto
    with 1 have r: "apply_children (init_func it g) cs \<noteq> Inl (NotImplementedError msg)" by simp
    show "apply_fn (init_func it g) (Module k w b cs) \<noteq> Inl (NotImplementedError msg)"
    proof (cases "apply_children (init_func it g) cs")
      case (Inl e)
      with r show ?thesis by auto
    next
      case (Inr cs')
      from nc have "\<not> conv_like (Module k w b cs')" by (simp add: conv_like_def)
      then show ?thesis using Inr init_func_not_conv_like by simp
    qed
  qed
next
  case 2
  show ?case by simp
next
  case (3 c cs)
  then show ?case by (auto split: sum.splits)
qed

lemma init_func_conv_like:
  "it \<notin> {''normal'', ''xavier'', ''kaiming'', ''orthogonal''} \<Longrightarrow> conv_like m \<Longrightarrow>
   init_func it g m = Inl (nie_msg it)"
  by (simp add: init_func_def nie_msg_def)

lemma init_func_bn_ok:
  "\<not> conv_like m \<Longrightarrow> bn_ok g m \<Longrightarrow> \<exists>m'. init_func it g m = Inr m'"
  by (cases "weight m"; cases "bias m") (auto simp add: init_func_def bn_ok_def normal_init_def)

lemma apply_unknown_type:
  assumes it: "it \<notin> {''normal'', ''xavier'', ''kaiming'', ''orthogonal''}"
  shows
  "(\<forall>x \<in> set (modules m). bn_ok g x) \<longrightarrow>
     (if \<exists>x \<in> set (modules m). conv_like x then apply_fn (init_func it g) m = Inl (nie_msg it)
      else \<exists>m'. apply_fn (init_func it g) m = Inr m')"
  "(\<forall>c \<in> set cs. \<forall>x \<in> set (modules c). bn_ok g x) \<longrightarrow>
     (if \<exists>c \<in> set cs. \<exists>x \<in> set (modules c). conv_like x then apply_children (init_func it g) cs = Inl (nie_msg it)
      else \<exists>cs'. apply_children (init_func it g) cs = Inr cs')"
proof (induction "init_func it g" m and "init_func it g" cs rule: apply_fn_apply_children.induct)
  case (1 k w b cs)
  show ?case
  proof
    assume a: "\<forall>x \<in> set (modules (Module k w b cs)). bn_ok g x"
    then have bo: "bn_ok g (Module k w b cs)" by simp
    from a have ch: "\<forall>c \<in> set cs. \<forall>x \<in> set (modules c). bn_ok g x" by auto
    with 1 have r: "if \<exists>c \<in> set cs. \<exists>x \<in> set (modules c). conv_like x then apply_children (init_func it g) cs = Inl (nie_msg it)
      else \<exists>cs'. apply_children (init_func it g) cs = Inr cs'" by simp
    show "if \<exists>x \<in> set (modules (Module k w b cs)). conv_like x then apply_fn (init_func it g) (Module k w b cs) = Inl (nie_msg it)
      else \<exists>m'. apply_fn (init_func it g) (Module k w b cs) = Inr m'"
    proof (cases "\<exists>c \<in> set cs. \<exists>x \<in> set (modules c). conv_like x")
      case True
      with r show ?thesis by auto
    next
      case False
      with r obtain cs' where cs': "apply_children (init_func it g) cs = Inr cs'" by auto
      show ?thesis
      proof (cases "conv_like (Module k w b cs)")
        case True
        then have "conv_like (Module k w b cs')" by (simp add: conv_like_def)
        then show ?thesis using True cs' init_func_conv_like [OF it] by simp
      next
        case nc: False
        then have "\<not> conv_like (Module k w b cs')" by (simp add: conv_like_def)
        moreover from bo have "bn_ok g (Module k w b cs')" using bn_ok_children [of g k w b cs' cs] by simp
        ultimately obtain m' where "init_func it g (Module k w b cs') = Inr m'"
          using init_func_bn_ok by blast
        then show ?thesis using nc False cs' by auto
      qed
    qed
  qed
next
  case 2
  show ?case by simp
next
  case (3 c cs)
  then show ?case by (auto split: sum.splits if_splits)
qed

text \<open>
  C7 as stated fails: the method name is only inspected inside \<open>init_func\<close>, when a module
  with a weight and a class name containing \<open>Conv\<close> or \<open>Linear\<close> is visited. On a network
  without such a module an unknown name raises nothing, and the batch-norm weights are
  initialised.
\<close>

theorem init_weights_no_conv_example:
  "init_weights (nn_Sequential [nn_BatchNorm2d 3, plain ReLU]) ''uniform'' (1 / 50)
     = Inr (nn_Sequential
         [Module (BatchNorm2d 3) (Param [3] (Normal 1 (1 / 50))) (Param [3] (Constant 0)) [],
          plain ReLU])"
  by (simp add: init_weights_def nn_Sequential_def nn_BatchNorm2d_def plain_def init_func_def
      conv_like_def normal_init_def constant_init_def)

text \<open>
  A batch normalization without weight and bias tensors that is visited before the
  convolution raises first, and so does an affine one when the gain is negative.
\<close>

lemma init_weights_batch_norm_first:
  "init_weights (nn_Sequential [Module (BatchNorm2d 3) IsNone IsNone [], nn_Conv2d 3 8 3 1 0 1 True])
       ''uniform'' (1 / 50) = Inl AttributeError"
  "init_weights (nn_Sequential [nn_BatchNorm2d 3, nn_Conv2d 3 8 3 1 0 1 True])
       ''uniform'' (- 1) = Inl RuntimeError"
  by (simp_all add: init_weights_def nn_Sequential_def nn_BatchNorm2d_def nn_Conv2d_def
      init_func_def conv_like_def normal_init_def)

text \<open>
  C7 (amended): for every init-type name outside \<open>{normal, xavier, kaiming, orthogonal}\<close>,
  \<open>init_weights\<close> fails with the unimplemented-method error on every network that contains
  a module with a weight attribute whose class name contains \<open>Conv\<close> or \<open>Linear\<close>, provided
  that the batch-normalization modules of the network initialise without error (each has
  weight and bias tensors, and the gain is not negative if there is one); on a network that
  contains no such module it never raises the unimplemented-method error, and returns
  normally under the same proviso.
\<close>

theorem init_weights_unknown_type:
  assumes "init_type \<notin> {''normal'', ''xavier'', ''kaiming'', ''orthogonal''}"
  shows "((\<exists>m \<in> set (modules net). conv_like m) \<and> (\<forall>m \<in> set (modules net). bn_ok init_gain m) \<longrightarrow>
            init_weights net init_type init_gain =
              Inl (NotImplementedError
                (''initialization method ['' @ init_type @ ''] is not implemented'')))
         \<and> ((\<forall>m \<in> set (modules net). \<not> conv_like m) \<longrightarrow>
            (\<forall>msg. init_weights net init_type init_gain \<noteq> Inl (NotImplementedError msg)))
         \<and> ((\<forall>m \<in> set (modules net). \<not> conv_like m) \<and> (\<forall>m \<in> set (modules net). bn_ok init_gain m) \<longrightarrow>
            (\<exists>net'. init_weights net init_type init_gain = Inr net'))"
  using apply_unknown_type(1) [OF assms, of net init_gain]
    apply_no_conv_like(1) [of net init_type init_gain]
  by (auto simp add: init_weights_def nie_msg_def split: if_splits)

theorem init_weights_unknown_type_witness:
  "''uniform'' \<notin> {''normal'', ''xavier'', ''kaiming'', ''orthogonal''} \<and>
   init_weights (nn_Sequential [nn_Conv2d 3 8 3 1 1 1 True, nn_BatchNorm2d 8, plain ReLU])
       ''uniform'' (1 / 50)
     = Inl (NotImplementedError ''initialization method [uniform] is not implemented'')"
proof -
  let ?net = "nn_Sequential [nn_Conv2d 3 8 3 1 1 1 True, nn_BatchNorm2d 8, plain ReLU]"
  have a: "''uniform'' \<notin> {''normal'', ''xavier'', ''kaiming'', ''orthogonal''}" by simp
  have b: "\<forall>m \<in> set (modules ?net). bn_ok (1 / 50) m"
    by (simp add: nn_Sequential_def nn_Conv2d_def nn_BatchNorm2d_def plain_def bn_ok_def
        conv_like_def)
  have c: "\<exists>m \<in> set (modules ?net). conv_like m"
    by (simp add: nn_Sequential_def nn_Conv2d_def nn_BatchNorm2d_def plain_def conv_like_def)
  show ?thesis
    using a b c init_weights_unknown_type [OF a, of ?net "1 / 50"] by simp
qed

section \<open>Results: residual block\<close>

lemma shape_nn_simps:
  "nn_layer (shape_nn ext) = layer_shape ext"
  "nn_add (shape_nn ext) = broadcast"
  "nn_view4 (shape_nn ext) = view4_shape"
  by (simp_all add: shape_nn_def)

lemma forward_conv_zero:
  "forward (shape_nn ext) tr (nn_Conv2d c c 3 1 1 1 ub) x = Inr y \<Longrightarrow> y = x"
  by (auto simp add: nn_Conv2d_def shape_nn_def layer_shape_def conv_size_def
      split: list.splits if_splits sum.splits)

lemma forward_norm_keeps:
  "call_norm_layer nl c = Inr nm \<Longrightarrow> forward (shape_nn ext) tr nm x = Inr y \<Longrightarrow> y = x"
  by (cases nl)
    (auto simp add: nn_BatchNorm2d_def nn_InstanceNorm2d_def plain_def shape_nn_def layer_shape_def
      split: list.splits if_splits)

lemma forward_plain_keeps:
  "k \<in> {ReLU, Dropout} \<Longrightarrow> forward (shape_nn ext) tr (plain k) x = Inr y \<Longrightarrow> y = x"
  by (auto simp add: plain_def shape_nn_def layer_shape_def)

lemma forward_seq_keeps:
  "(\<forall>m \<in> set ms. \<forall>x y. forward L tr m x = Inr y \<longrightarrow> y = x) \<Longrightarrow>
   forward_seq L tr ms x = Inr y \<Longrightarrow> y = x"
  by (induction ms arbitrary: x) (auto split: sum.splits)

lemma bc_rev_same: "bc_rev xs xs = Inr xs"
  by (induction xs) auto

lemma broadcast_same: "broadcast x x = Inr x"
  by (simp add: broadcast_def bc_rev_same)

lemma forward_norm_ok:
  "call_norm_layer nl c = Inr nm \<Longrightarrow> 0 < n \<Longrightarrow> 1 < h \<Longrightarrow> 1 < w \<Longrightarrow>
   forward (shape_nn ext) tr nm [n, c, h, w] = Inr [n, c, h, w]"
  by (cases nl)
    (auto simp add: nn_BatchNorm2d_def nn_InstanceNorm2d_def plain_def shape_nn_def layer_shape_def)

lemma forward_conv_zero_ok:
  "0 < h \<Longrightarrow> 0 < w \<Longrightarrow>
   forward (shape_nn ext) tr (nn_Conv2d c c 3 1 1 1 ub) [n, c, h, w] = Inr [n, c, h, w]"
  by (simp add: nn_Conv2d_def shape_nn_def layer_shape_def conv_size_def)

lemma forward_plain_ok:
  "k \<in> {ReLU, Dropout} \<Longrightarrow> forward (shape_nn ext) tr (plain k) x = Inr x"
  by (auto simp add: plain_def shape_nn_def layer_shape_def)

lemma zero_layers:
  "call_norm_layer nl c = Inr nm \<Longrightarrow>
   conv_block_layers c ''zero'' nl ud ub =
     Inr ([nn_Conv2d c c 3 1 1 1 ub, nm, plain ReLU] @ (if ud then [plain Dropout] else [])
          @ [nn_Conv2d c c 3 1 1 1 ub, nm])"
  by (simp add: conv_block_layers_def padding_def)

lemma zero_layers_keep:
  assumes "call_norm_layer nl c = Inr nm"
    and "m \<in> set ([nn_Conv2d c c 3 1 1 1 ub, nm, plain ReLU] @ (if ud then [plain Dropout] else [])
          @ [nn_Conv2d c c 3 1 1 1 ub, nm])"
    and "forward (shape_nn ext) tr m x = Inr y"
  shows "y = x"
  using assms forward_conv_zero [of ext tr c ub x y] forward_norm_keeps [OF assms(1), of ext tr x y]
    forward_plain_keeps [of ReLU ext tr x y] forward_plain_keeps [of Dropout ext tr x y]
  by (auto split: if_splits)

lemma zero_layers_run:
  assumes "call_norm_layer nl c = Inr nm" and "0 < n" and "1 < h" and "1 < w"
  shows "forward_seq (shape_nn ext) tr
           ([nn_Conv2d c c 3 1 1 1 ub, nm, plain ReLU] @ (if ud then [plain Dropout] else [])
             @ [nn_Conv2d c c 3 1 1 1 ub, nm]) [n, c, h, w] = Inr [n, c, h, w]"
  using assms forward_norm_ok [OF assms, of ext tr] forward_conv_zero_ok [of h w ext tr c ub n]
    forward_plain_ok [of ReLU ext tr "[n, c, h, w]"] forward_plain_ok [of Dropout ext tr "[n, c, h, w]"]
  by simp

text \<open>
  C8: for every padding policy among \<open>reflect\<close>, \<open>replicate\<close> and \<open>zero\<close> the block is
  constructed, and for every tensor library and every input its forward pass is the input
  plus the output of its convolutional branch on that input (an error of the branch or of
  the addition is the error of the block). With the \<open>zero\<close> policy the branch has no
  padding layer, both convolutions carry padding 1, and on shapes every output of the block
  has the shape of its input; the forward pass succeeds on every batched input of the
  block's channel count whose height and width exceed one.
\<close>

theorem ResnetBlock_forward:
  assumes "call_norm_layer norm_layer chans = Inr nm"
  shows
    "(\<forall>padding_type \<in> {''reflect'', ''replicate'', ''zero''}.
        \<exists>layers.
          build_conv_block chans padding_type norm_layer use_dropout use_bias
            = Inr (nn_Sequential layers) \<and>
          ResnetBlock_init chans padding_type norm_layer use_dropout use_bias
            = Inr (Module ResnetBlock Absent Absent [nn_Sequential layers]) \<and>
          (\<forall>x. forward L tr (Module ResnetBlock Absent Absent [nn_Sequential layers]) x =
                 (case forward L tr (nn_Sequential layers) x of
                    Inl e \<Rightarrow> Inl e
                  | Inr y \<Rightarrow> nn_add L x y)))
     \<and> (\<exists>blk. ResnetBlock_init chans ''zero'' norm_layer use_dropout use_bias = Inr blk \<and>
          blk = Module ResnetBlock Absent Absent
                  [nn_Sequential
                     ([nn_Conv2d chans chans 3 1 1 1 use_bias, nm, plain ReLU]
                      @ (if use_dropout then [plain Dropout] else [])
                      @ [nn_Conv2d chans chans 3 1 1 1 use_bias, nm])] \<and>
          (\<forall>x out. forward (shape_nn ext) tr blk x = Inr out \<longrightarrow> out = x) \<and>
          (\<forall>n h w. 0 < n \<and> 1 < h \<and> 1 < w \<longrightarrow>
             forward (shape_nn ext) tr blk [n, chans, h, w] = Inr [n, chans, h, w]))"
proof (intro conjI)
  show "\<forall>padding_type \<in> {''reflect'', ''replicate'', ''zero''}.
        \<exists>layers.
          build_conv_block chans padding_type norm_layer use_dropout use_bias
            = Inr (nn_Sequential layers) \<and>
          ResnetBlock_init chans padding_type norm_layer use_dropout use_bias
            = Inr (Module ResnetBlock Absent Absent [nn_Sequential layers]) \<and>
          (\<forall>x. forward L tr (Module ResnetBlock Absent Absent [nn_Sequential layers]) x =
                 (case forward L tr (nn_Sequential layers) x of
                    Inl e \<Rightarrow> Inl e
                  | Inr y \<Rightarrow> nn_add L x y))"
    using assms
    by (auto simp add: ResnetBlock_init_def build_conv_block_def conv_block_layers_def padding_def)
next
  let ?layers = "[nn_Conv2d chans chans 3 1 1 1 use_bias, nm, plain ReLU]
                      @ (if use_dropout then [plain Dropout] else [])
                      @ [nn_Conv2d chans chans 3 1 1 1 use_bias, nm]"
  let ?blk = "Module ResnetBlock Absent Absent [nn_Sequential ?layers]"
  have init: "ResnetBlock_init chans ''zero'' norm_layer use_dropout use_bias = Inr ?blk"
    using zero_layers [OF assms, of use_dropout use_bias]
    by (simp add: ResnetBlock_init_def build_conv_block_def)
  have keep: "out = x" if "forward (shape_nn ext) tr ?blk x = Inr out" for x out
  proof -
    from that obtain y where y: "forward_seq (shape_nn ext) tr ?layers x = Inr y"
      and o: "broadcast x y = Inr out"
      by (auto simp add: nn_Sequential_def shape_nn_simps split: sum.splits)
    have "\<forall>m \<in> set ?layers. \<forall>x y. forward (shape_nn ext) tr m x = Inr y \<longrightarrow> y = x"
      using zero_layers_keep [OF assms] by blast
    from forward_seq_keeps [OF this y] have "y = x" .
    with o show ?thesis by (simp add: broadcast_same)
  qed
  have run: "forward (shape_nn ext) tr ?blk [n, chans, h, w] = Inr [n, chans, h, w]"
    if "0 < n \<and> 1 < h \<and> 1 < w" for n h w
  proof -
    from that have "forward_seq (shape_nn ext) tr ?layers [n, chans, h, w] = Inr [n, chans, h, w]"
      using zero_layers_run [OF assms, of n h w ext tr use_bias use_dropout] by simp
    then show ?thesis
      by (simp add: nn_Sequential_def shape_nn_simps broadcast_same)
  qed
  show "\<exists>blk. ResnetBlock_init chans ''zero'' norm_layer use_dropout use_bias = Inr blk \<and>
          blk = ?blk \<and>
          (\<forall>x out. forward (shape_nn ext) tr blk x = Inr out \<longrightarrow> out = x) \<and>
          (\<forall>n h w. 0 < n \<and> 1 < h \<and> 1 < w \<longrightarrow>
             forward (shape_nn ext) tr blk [n, chans, h, w] = Inr [n, chans, h, w])"
    using init keep run by blast
qed

theorem ResnetBlock_forward_witness:
  "call_norm_layer BatchNorm2d_partial 8 = Inr (nn_BatchNorm2d 8) \<and>
   (\<exists>blk. ResnetBlock_init 8 ''zero'' BatchNorm2d_partial False False = Inr blk \<and>
      forward (shape_nn (\<lambda>m x. Inl RuntimeError)) True blk [2, 8, 16, 16] = Inr [2, 8, 16, 16])"
proof -
  have a: "call_norm_layer BatchNorm2d_partial 8 = Inr (nn_BatchNorm2d 8)" by simp
  have "\<exists>blk. ResnetBlock_init 8 ''zero'' BatchNorm2d_partial False False = Inr blk \<and>
      (\<forall>n h w. 0 < n \<and> 1 < h \<and> 1 < w \<longrightarrow>
         forward (shape_nn (\<lambda>m x. Inl RuntimeError)) True blk [n, 8, h, w] = Inr [n, 8, h, w])"
    using ResnetBlock_forward [OF a, of False False "shape_nn (\<lambda>m x. Inl RuntimeError)" True
        "\<lambda>m x. Inl RuntimeError"]
    by blast
  then obtain blk where "ResnetBlock_init 8 ''zero'' BatchNorm2d_partial False False = Inr blk"
    and r: "\<And>n h w. 0 < n \<and> 1 < h \<and> 1 < w \<Longrightarrow>
         forward (shape_nn (\<lambda>m x. Inl RuntimeError)) True blk [n, 8, h, w] = Inr [n, 8, h, w]"
    by blast
  moreover have "forward (shape_nn (\<lambda>m x. Inl RuntimeError)) True blk [2, 8, 16, 16] = Inr [2, 8, 16, 16]"
    by (rule r) simp
  ultimately show ?thesis using a by blast
qed

section \<open>Results: binary-classification discriminator\<close>

lemma forward_Discriminator_Classify:
  "forward L tr (Module Discriminator_Classify w b [conv, classify]) x =
     (case forward L tr conv x of
        Inl e \<Rightarrow> Inl e
      | Inr c \<Rightarrow> (case nn_view4 L c of Inl e \<Rightarrow> Inl e | Inr v \<Rightarrow> forward L tr classify v))"
  by simp

lemma classify_out:
  "view4_shape c = Inr v \<Longrightarrow>
   forward (shape_nn ext) tr (nn_Sequential [nn_Linear i 2]) v = Inr out \<Longrightarrow> out = [4, 2]"
  by (auto simp add: view4_shape_def nn_Sequential_def nn_Linear_def shape_nn_def layer_shape_def
      split: if_splits)

lemma Discriminator_Classify_out:
  "forward (shape_nn ext) tr (Discriminator_Classify_init input_nc ndf) x = Inr out \<Longrightarrow> out = [4, 2]"
proof -
  assume a: "forward (shape_nn ext) tr (Discriminator_Classify_init input_nc ndf) x = Inr out"
  then obtain c v where "view4_shape c = Inr v"
    and "forward (shape_nn ext) tr (nn_Sequential [nn_Linear (ndf * 32 * 16) 2]) v = Inr out"
    by (auto simp add: Discriminator_Classify_init_def shape_nn_def split: sum.splits)
  then show ?thesis using classify_out by blast
qed

lemma conv_stack:
  "0 < ndf \<Longrightarrow> 0 < b \<Longrightarrow>
   forward (shape_nn ext) tr
     (nn_Sequential
          [nn_Conv2d input_nc ndf 4 2 1 1 True, nn_BatchNorm2d ndf, plain LeakyReLU,
           nn_Conv2d ndf (ndf * 2) 4 2 1 1 True, nn_BatchNorm2d (ndf * 2), plain LeakyReLU,
           nn_Conv2d (ndf * 2) (ndf * 4) 4 2 1 1 True, nn_BatchNorm2d (ndf * 4), plain LeakyReLU,
           nn_Conv2d (ndf * 4) (ndf * 8) 4 2 1 1 True, nn_BatchNorm2d (ndf * 8), plain LeakyReLU,
           nn_Conv2d (ndf * 8) (ndf * 16) 4 2 1 1 True, nn_BatchNorm2d (ndf * 16), plain LeakyReLU,
           nn_Conv2d (ndf * 16) (ndf * 32) 3 2 1 1 True, nn_BatchNorm2d (ndf * 32), plain LeakyReLU])
     [b, input_nc, 224, 224] = Inr [b, ndf * 32, 4, 4]"
  by (simp add: nn_Sequential_def nn_Conv2d_def nn_BatchNorm2d_def plain_def shape_nn_def
      layer_shape_def conv_size_def)

lemma conv_stack512:
  "0 < ndf \<Longrightarrow> 0 < b \<Longrightarrow>
   forward (shape_nn ext) tr
     (nn_Sequential
          [nn_Conv2d input_nc ndf 4 2 1 1 True, nn_BatchNorm2d ndf, plain LeakyReLU,
           nn_Conv2d ndf (ndf * 2) 4 2 1 1 True, nn_BatchNorm2d (ndf * 2), plain LeakyReLU,
           nn_Conv2d (ndf * 2) (ndf * 4) 4 2 1 1 True, nn_BatchNorm2d (ndf * 4), plain LeakyReLU,
           nn_Conv2d (ndf * 4) (ndf * 8) 4 2 1 1 True, nn_BatchNorm2d (ndf * 8), plain LeakyReLU,
           nn_Conv2d (ndf * 8) (ndf * 16) 4 2 1 1 True, nn_BatchNorm2d (ndf * 16), plain LeakyReLU,
           nn_Conv2d (ndf * 16) (ndf * 32) 3 2 1 1 True, nn_BatchNorm2d (ndf * 32), plain LeakyReLU])
     [b, input_nc, 512, 512] = Inr [b, ndf * 32, 8, 8]"
  by (simp add: nn_Sequential_def nn_Conv2d_def nn_BatchNorm2d_def plain_def shape_nn_def
      layer_shape_def conv_size_def)

lemma classify_run:
  assumes n: "0 < ndf" and b: "b * s * s = 64"
  shows "(case view4_shape [b, ndf * 32, s, s] of
      Inl e \<Rightarrow> Inl e
    | Inr v \<Rightarrow> forward (shape_nn ext) tr (nn_Sequential [nn_Linear (ndf * 32 * 16) 2]) v) = Inr [4, 2]"
proof -
  have "prod_list [b, ndf * 32, s, s] = ndf * 32 * (b * s * s)" by simp
  with b have p: "prod_list [b, ndf * 32, s, s] = ndf * 2048" by simp
  have v: "view4_shape [b, ndf * 32, s, s] = Inr [4, ndf * 512]"
    unfolding view4_shape_def p using n by simp
  show ?thesis
    unfolding v
    by (simp add: nn_Sequential_def nn_Linear_def shape_nn_simps layer_shape_def)
qed

lemma Discriminator_Classify_run:
  assumes "forward (shape_nn ext) tr
     (nn_Sequential
          [nn_Conv2d input_nc ndf 4 2 1 1 True, nn_BatchNorm2d ndf, plain LeakyReLU,
           nn_Conv2d ndf (ndf * 2) 4 2 1 1 True, nn_BatchNorm2d (ndf * 2), plain LeakyReLU,
           nn_Conv2d (ndf * 2) (ndf * 4) 4 2 1 1 True, nn_BatchNorm2d (ndf * 4), plain LeakyReLU,
           nn_Conv2d (ndf * 4) (ndf * 8) 4 2 1 1 True, nn_BatchNorm2d (ndf * 8), plain LeakyReLU,
           nn_Conv2d (ndf * 8) (ndf * 16) 4 2 1 1 True, nn_BatchNorm2d (ndf * 16), plain LeakyReLU,
           nn_Conv2d (ndf * 16) (ndf * 32) 3 2 1 1 True, nn_BatchNorm2d (ndf * 32), plain LeakyReLU])
     x = Inr [b, ndf * 32, s, s]" and "0 < ndf" and "b * s * s = 64"
  shows "forward (shape_nn ext) tr (Discriminator_Classify_init input_nc ndf) x = Inr [4, 2]"
  unfolding Discriminator_Classify_init_def forward_Discriminator_Classify assms(1) shape_nn_simps
  using classify_run [OF assms(2,3), of ext tr] by (simp only: sum.case)

text \<open>
  A batch of eight samples of size 224 by 224 is reshaped to four rows, which the linear
  layer then rejects: no output is produced.
\<close>

lemma Discriminator_Classify_batch8:
  assumes "0 < ndf"
  shows "forward (shape_nn ext) tr (Discriminator_Classify_init input_nc ndf) [8, input_nc, 224, 224]
           = Inl RuntimeError"
proof -
  have "prod_list [8, ndf * 32, 4, 4] = ndf * 4096" by simp
  then have v: "view4_shape [8, ndf * 32, 4, 4] = Inr [4, ndf * 1024]"
    unfolding view4_shape_def using assms by simp
  have c: "forward (shape_nn ext) tr (nn_Sequential [nn_Linear (ndf * 32 * 16) 2]) [4, ndf * 1024]
             = Inl RuntimeError"
    using assms by (simp add: nn_Sequential_def nn_Linear_def shape_nn_simps layer_shape_def)
  have b: "(0::nat) < 8" by simp
  show ?thesis
    unfolding Discriminator_Classify_init_def forward_Discriminator_Classify
      conv_stack [OF assms b, of ext tr input_nc] shape_nn_simps
    using v c by (simp only: sum.case)
qed

text \<open>
  C9: on a batch of four samples of size 224 by 224 the forward pass returns the shape
  \<open>(4, 2)\<close>; whatever the input, a forward pass that returns has the output shape
  \<open>(4, 2)\<close>, since the reshape fixes the batch dimension to four: a single sample of size
  512 by 512 also yields \<open>(4, 2)\<close>.
\<close>

theorem Discriminator_Classify_forward:
  assumes "0 < input_nc" and "0 < ndf"
  shows "forward (shape_nn ext) tr (Discriminator_Classify_init input_nc ndf) [4, input_nc, 224, 224]
           = Inr [4, 2]
         \<and> (\<forall>x out. forward (shape_nn ext) tr (Discriminator_Classify_init input_nc ndf) x = Inr out
               \<longrightarrow> out = [4, 2])
         \<and> forward (shape_nn ext) tr (Discriminator_Classify_init input_nc ndf) [1, input_nc, 512, 512]
           = Inr [4, 2]"
proof (intro conjI allI impI)
  show "forward (shape_nn ext) tr (Discriminator_Classify_init input_nc ndf) [4, input_nc, 224, 224]
           = Inr [4, 2]"
    by (rule Discriminator_Classify_run [OF conv_stack [OF assms(2)] assms(2)]) simp_all
next
  fix x out
  assume "forward (shape_nn ext) tr (Discriminator_Classify_init input_nc ndf) x = Inr out"
  then show "out = [4, 2]" by (rule Discriminator_Classify_out)
next
  show "forward (shape_nn ext) tr (Discriminator_Classify_init input_nc ndf) [1, input_nc, 512, 512]
           = Inr [4, 2]"
    by (rule Discriminator_Classify_run [OF conv_stack512 [OF assms(2)] assms(2)]) simp_all
qed

theorem Discriminator_Classify_forward_witness:
  "(0::nat) < 3 \<and> (0::nat) < 96 \<and>
   forward (shape_nn (\<lambda>m x. Inl RuntimeError)) True (Discriminator_Classify_init 3 96)
     [4, 3, 224, 224] = Inr [4, 2]"
proof -
  have a: "(0::nat) < 3" and b: "(0::nat) < 96" by simp_all
  show ?thesis
    using a b Discriminator_Classify_forward [OF a b, of "\<lambda>m x. Inl RuntimeError" True]
    by simp
qed

section \<open>Results: generator construction\<close>

lemma xavier_normal_init_ok:
  assumes "2 \<le> length sh" and "0 < (sh ! 0 + sh ! 1) * prod_list (drop 2 sh)" and "0 \<le> g"
  shows "\<exists>w. xavier_normal_init (sh, d) g = Inr w"
proof -
  from assms(2) have "0 < sh ! 1 * prod_list (drop 2 sh) + sh ! 0 * prod_list (drop 2 sh)"
    by (simp add: algebra_simps)
  moreover have "0 \<le> g * sqrt (2 / real (sh ! 1 * prod_list (drop 2 sh) + sh ! 0 * prod_list (drop 2 sh)))"
    using assms(3) by simp
  ultimately show ?thesis
    using assms(1) by (simp add: xavier_normal_init_def fan_in_and_fan_out_def Let_def not_less)
qed

lemma kaiming_normal_init_ok:
  "2 \<le> length sh \<Longrightarrow> \<exists>w. kaiming_normal_init (sh, d) = Inr w"
  by (simp add: kaiming_normal_init_def fan_in_and_fan_out_def Let_def)

lemma orthogonal_init_ok:
  "2 \<le> length sh \<Longrightarrow> \<exists>w. orthogonal_init (sh, d) g = Inr w"
  by (simp add: orthogonal_init_def)

lemma init_func_safe:
  assumes "it \<in> {''normal'', ''xavier'', ''kaiming'', ''orthogonal''}" and "0 \<le> g"
    and "init_safe1 m"
  shows "\<exists>m'. init_func it g m = Inr m'"
proof (cases "conv_like m")
  case True
  with assms(3) obtain sh d where w: "weight m = Param sh d" and l: "2 \<le> length sh"
    and f: "0 < (sh ! 0 + sh ! 1) * prod_list (drop 2 sh)"
    by (auto simp add: init_safe1_def split: attr.splits)
  from xavier_normal_init_ok [OF l f assms(2)] obtain wx where wx: "xavier_normal_init (sh, d) g = Inr wx" by blast
  from kaiming_normal_init_ok [OF l] obtain wk where wk: "kaiming_normal_init (sh, d) = Inr wk" by blast
  from orthogonal_init_ok [OF l] obtain wo where wo: "orthogonal_init (sh, d) g = Inr wo" by blast
  from assms(1,2) True w wx wk wo show ?thesis
    by (cases "bias m") (auto simp add: init_func_def normal_init_def)
next
  case False
  with assms(2,3) show ?thesis
    by (cases "weight m"; cases "bias m") (auto simp add: init_func_def init_safe1_def normal_init_def)
qed

lemma init_safe1_children: "init_safe1 (Module k w b cs') = init_safe1 (Module k w b cs)"
  by (simp add: init_safe1_def conv_like_def)

lemma apply_safe:
  assumes it: "it \<in> {''normal'', ''xavier'', ''kaiming'', ''orthogonal''}" and g: "0 \<le> g"
  shows "list_all init_safe1 (modules m) \<longrightarrow> (\<exists>m'. apply_fn (init_func it g) m = Inr m')"
    and "list_all (\<lambda>c. list_all init_safe1 (modules c)) cs \<longrightarrow>
         (\<exists>cs'. apply_children (init_func it g) cs = Inr cs')"
proof (induction "init_func it g" m and "init_func it g" cs rule: apply_fn_apply_children.induct)
  case (1 k w b cs)
  show ?case
  proof
    assume a: "list_all init_safe1 (modules (Module k w b cs))"
    then have s: "init_safe1 (Module k w b cs)" by simp
    from a have "list_all (\<lambda>c. list_all init_safe1 (modules c)) cs"
      by (simp add: list_all_iff)
    with 1 obtain cs' where cs': "apply_children (init_func it g) cs = Inr cs'" by auto
    from s have "init_safe1 (Module k w b cs')" using init_safe1_children [of k w b cs' cs] by simp
    from init_func_safe [OF it g this] cs'
    show "\<exists>m'. apply_fn (init_func it g) (Module k w b cs) = Inr m'" by simp
  qed
next
  case 2
  show ?case by simp
next
  case (3 c cs)
  then show ?case by (auto split: sum.splits)
qed

lemma init_weights_safe:
  "it \<in> {''normal'', ''xavier'', ''kaiming'', ''orthogonal''} \<Longrightarrow> 0 \<le> g \<Longrightarrow> init_safe net \<Longrightarrow>
   \<exists>net'. init_weights net it g = Inr net'"
  using apply_safe(1) [of it g net] by (simp add: init_weights_def init_safe_def)

lemma init_func_kind: "init_func it g m = Inr m' \<Longrightarrow> kind m' = kind m"
  by (cases "bias m") (auto simp add: init_func_def ebind_Inr_iff split: if_splits)

lemma init_weights_kind: "init_weights net it g = Inr net' \<Longrightarrow> kind net' = kind net"
  by (cases net) (auto simp add: init_weights_def split: sum.splits dest: init_func_kind)

lemma init_safe_Module:
  "init_safe (Module k w b cs) = (init_safe1 (Module k w b cs) \<and> list_all init_safe cs)"
  by (simp add: init_safe_def list_all_iff)

lemma init_safe_conv:
  "0 < o' + i div g \<Longrightarrow> 0 < k \<Longrightarrow> init_safe (nn_Conv2d i o' k s p g ub)"
  "0 < i + o' \<Longrightarrow> 0 < k \<Longrightarrow> init_safe (nn_ConvTranspose2d i o' k s p q ub)"
  "0 < i + o' \<Longrightarrow> init_safe (nn_Linear i o')"
  by (auto simp add: init_safe_def init_safe1_def conv_like_def nn_Conv2d_def nn_ConvTranspose2d_def
      nn_Linear_def)

lemma init_safe_leaf [simp]:
  "init_safe (nn_BatchNorm2d n)"
  "init_safe (nn_InstanceNorm2d n)"
  "init_safe (Module (LayerNorm n fmt) (Param [n] d1) (Param [n] d2) [])"
  by (simp_all add: init_safe_def init_safe1_def conv_like_def nn_BatchNorm2d_def
      nn_InstanceNorm2d_def)

lemma init_safe_plain [simp]:
  "init_safe (plain ReLU)" "init_safe (plain LeakyReLU)" "init_safe (plain Tanh)"
  "init_safe (plain GELU)" "init_safe (plain Dropout)" "init_safe (plain Identity)"
  "init_safe (plain (ReflectionPad2d p))" "init_safe (plain (ReplicationPad2d p))"
  "init_safe (plain (Resize h w))" "init_safe (plain (Other ''DropPath''))"
  by (simp_all add: init_safe_def init_safe1_def conv_like_def plain_def)

lemma init_safe_container:
  "k \<in> {Sequential, ModuleList, DataParallel, ResnetGenerator, ResnetBlock, UnetGenerator,
        UnetSkipConnectionBlock o', Block, InvBlock, ConvnextGenerator, ConvnextBIGenerator,
        InvnextGenerator} \<Longrightarrow>
   init_safe (Module k Absent Absent cs) = list_all init_safe cs"
  by (auto simp add: init_safe_Module init_safe1_def conv_like_def)

lemma init_safe_Sequential [simp]: "init_safe (nn_Sequential ms) = list_all init_safe ms"
  by (simp add: nn_Sequential_def init_safe_container)

lemma emap_good:
  assumes "\<And>x. x \<in> set xs \<Longrightarrow> \<exists>y. f x = Inr y \<and> P y"
  shows "\<exists>ys. emap f xs = Inr ys \<and> list_all P ys"
  using assms
proof (induction xs)
  case Nil
  show ?case by simp
next
  case (Cons x xs)
  then obtain y where y: "f x = Inr y" "P y" by auto
  from Cons obtain ys where ys: "emap f xs = Inr ys" "list_all P ys" by auto
  from y ys show ?case by simp
qed

lemma norm_safe: "call_norm_layer nl n = Inr nm \<Longrightarrow> init_safe nm"
  by (cases nl) auto

lemma ResnetBlock_good:
  assumes "\<And>n. \<exists>nm. call_norm_layer nl n = Inr nm" and "0 < c"
  shows "\<exists>blk. ResnetBlock_init c ''reflect'' nl ud ub = Inr blk \<and> init_safe blk"
proof -
  from assms(1) obtain nm where nm: "call_norm_layer nl c = Inr nm" by blast
  from norm_safe [OF nm] nm assms(2) show ?thesis
    by (simp add: ResnetBlock_init_def build_conv_block_def conv_block_layers_def padding_def
        init_safe_container init_safe_conv)
qed

lemma ResnetGenerator_good:
  assumes nl: "\<And>n. \<exists>nm. call_norm_layer nl n = Inr nm" and nb: "0 \<le> n_blocks"
    and ngf: "0 < ngf"
  shows "\<exists>net. ResnetGenerator_init input_nc output_nc ngf nl ud n_blocks ''reflect'' = Inr net
           \<and> init_safe net \<and> kind net = ResnetGenerator"
proof -
  let ?ub = "norm_use_bias nl"
  from nl obtain norm0 where n0: "call_norm_layer nl ngf = Inr norm0" by blast
  have "\<exists>ys. emap (\<lambda>i. let mult = 2 ^ i in
                        ebind (call_norm_layer nl (ngf * mult * 2)) (\<lambda>nm.
                          Inr [nn_Conv2d (ngf * mult) (ngf * mult * 2) 3 2 1 1 ?ub, nm, plain ReLU]))
                  [0..<2] = Inr ys \<and> list_all (list_all init_safe) ys"
  proof (rule emap_good)
    fix i :: nat
    from nl obtain nm where nm: "call_norm_layer nl (ngf * 2 ^ i * 2) = Inr nm" by blast
    from nm norm_safe [OF nm] ngf
    show "\<exists>y. (let mult = 2 ^ i in
                        ebind (call_norm_layer nl (ngf * mult * 2)) (\<lambda>nm.
                          Inr [nn_Conv2d (ngf * mult) (ngf * mult * 2) 3 2 1 1 ?ub, nm, plain ReLU]))
             = Inr y \<and> list_all init_safe y"
      by (simp add: Let_def init_safe_conv)
  qed
  then obtain down where down: "emap (\<lambda>i. let mult = 2 ^ i in
                        ebind (call_norm_layer nl (ngf * mult * 2)) (\<lambda>nm.
                          Inr [nn_Conv2d (ngf * mult) (ngf * mult * 2) 3 2 1 1 ?ub, nm, plain ReLU]))
                  [0..<2] = Inr down" and downs: "list_all (list_all init_safe) down" by blast
  from ngf have p4: "0 < ngf * 2 ^ 2" by simp
  have "\<exists>ys. emap (\<lambda>i. ResnetBlock_init (ngf * 2 ^ 2) ''reflect'' nl ud ?ub) [0..<nat n_blocks] = Inr ys
          \<and> list_all init_safe ys"
    by (rule emap_good) (rule ResnetBlock_good [OF nl p4])
  then obtain blocks where blocks: "emap (\<lambda>i. ResnetBlock_init (ngf * 2 ^ 2) ''reflect'' nl ud ?ub)
         [0..<nat n_blocks] = Inr blocks" and blockss: "list_all init_safe blocks" by blast
  have "\<exists>ys. emap (\<lambda>i. let mult = 2 ^ (2 - i) in
                        ebind (call_norm_layer nl (ngf * mult div 2)) (\<lambda>nm.
                          Inr [nn_ConvTranspose2d (ngf * mult) (ngf * mult div 2) 3 2 1 1 ?ub,
                               nm, plain ReLU]))
                  [0..<2] = Inr ys \<and> list_all (list_all init_safe) ys"
  proof (rule emap_good)
    fix i :: nat
    from nl obtain nm where nm: "call_norm_layer nl (ngf * 2 ^ (2 - i) div 2) = Inr nm" by blast
    from nm norm_safe [OF nm] ngf
    show "\<exists>y. (let mult = 2 ^ (2 - i) in
                        ebind (call_norm_layer nl (ngf * mult div 2)) (\<lambda>nm.
                          Inr [nn_ConvTranspose2d (ngf * mult) (ngf * mult div 2) 3 2 1 1 ?ub,
                               nm, plain ReLU]))
             = Inr y \<and> list_all init_safe y"
      by (simp add: Let_def init_safe_conv)
  qed
  then obtain up where up: "emap (\<lambda>i. let mult = 2 ^ (2 - i) in
                        ebind (call_norm_layer nl (ngf * mult div 2)) (\<lambda>nm.
                          Inr [nn_ConvTranspose2d (ngf * mult) (ngf * mult div 2) 3 2 1 1 ?ub,
                               nm, plain ReLU]))
                  [0..<2] = Inr up" and ups: "list_all (list_all init_safe) up" by blast
  have cc: "list_all init_safe (concat xs)" if "list_all (list_all init_safe) xs" for xs
    using that by (induction xs) auto
  show ?thesis
    unfolding ResnetGenerator_init_def Let_def
    using nb n0 norm_safe [OF n0] down blocks up cc [OF downs] cc [OF ups] blockss ngf
    by (simp add: init_safe_container Let_def init_safe_conv)
qed

lemma UnetSkipConnectionBlock_good:
  assumes nl: "\<And>n. \<exists>nm. call_norm_layer nl n = Inr nm"
    and sub: "(case submodule of None \<Rightarrow> True | Some sm \<Rightarrow> init_safe sm)"
    and pos: "0 < inner_nc"
  shows "\<exists>m. UnetSkipConnectionBlock_init outer_nc inner_nc input_nc submodule outermost innermost nl ud
              = Inr m \<and> init_safe m"
proof -
  from nl obtain downnorm where dn: "call_norm_layer nl inner_nc = Inr downnorm" by blast
  from nl obtain upnorm where un: "call_norm_layer nl outer_nc = Inr upnorm" by blast
  from sub pos dn un norm_safe [OF dn] norm_safe [OF un] show ?thesis
    by (cases submodule)
      (auto simp add: UnetSkipConnectionBlock_init_def Let_def init_safe_container init_safe_conv)
qed

lemma unet_intermediate_good:
  assumes nl: "\<And>n. \<exists>nm. call_norm_layer nl n = Inr nm" and ngf: "0 < ngf"
  shows "init_safe blk \<Longrightarrow> \<exists>m. unet_intermediate n ngf nl ud blk = Inr m \<and> init_safe m"
proof (induction n arbitrary: blk)
  case 0
  then show ?case by simp
next
  case (Suc n)
  from ngf have p: "0 < ngf * 8" by simp
  from UnetSkipConnectionBlock_good [OF nl _ p, where submodule = "Some blk" and outermost = False
      and innermost = False and outer_nc = "ngf * 8" and input_nc = None
      and ud = ud] Suc.prems
  obtain m where m: "UnetSkipConnectionBlock_init (ngf * 8) (ngf * 8) None (Some blk) False False nl ud = Inr m"
    and ms: "init_safe m" by auto
  from Suc.IH [OF ms] m show ?case by simp
qed

lemma UnetGenerator_good:
  assumes nl: "\<And>n. \<exists>nm. call_norm_layer nl n = Inr nm" and ngf: "0 < ngf"
  shows "\<exists>net. UnetGenerator_init input_nc output_nc num_downs ngf nl ud = Inr net
           \<and> init_safe net \<and> kind net = UnetGenerator"
proof -
  from ngf have p8: "0 < ngf * 8" and p4: "0 < ngf * 4" and p2: "0 < ngf * 2" by simp_all
  from UnetSkipConnectionBlock_good [OF nl _ p8, where submodule = None and outermost = False
      and innermost = True and outer_nc = "ngf * 8" and input_nc = None
      and ud = False]
  obtain b0 where b0: "UnetSkipConnectionBlock_init (ngf * 8) (ngf * 8) None None False True nl False = Inr b0"
    and s0: "init_safe b0" by auto
  from unet_intermediate_good [OF nl ngf s0, of "nat (num_downs - 5)" ud]
  obtain b1 where b1: "unet_intermediate (nat (num_downs - 5)) ngf nl ud b0 = Inr b1"
    and s1: "init_safe b1" by auto
  from UnetSkipConnectionBlock_good [OF nl _ p8, where submodule = "Some b1" and outermost = False
      and innermost = False and outer_nc = "ngf * 4" and input_nc = None
      and ud = False] s1
  obtain b2 where b2: "UnetSkipConnectionBlock_init (ngf * 4) (ngf * 8) None (Some b1) False False nl False = Inr b2"
    and s2: "init_safe b2" by auto
  from UnetSkipConnectionBlock_good [OF nl _ p4, where submodule = "Some b2" and outermost = False
      and innermost = False and outer_nc = "ngf * 2" and input_nc = None
      and ud = False] s2
  obtain b3 where b3: "UnetSkipConnectionBlock_init (ngf * 2) (ngf * 4) None (Some b2) False False nl False = Inr b3"
    and s3: "init_safe b3" by auto
  from UnetSkipConnectionBlock_good [OF nl _ p2, where submodule = "Some b3" and outermost = False
      and innermost = False and outer_nc = ngf and input_nc = None
      and ud = False] s3
  obtain b4 where b4: "UnetSkipConnectionBlock_init ngf (ngf * 2) None (Some b3) False False nl False = Inr b4"
    and s4: "init_safe b4" by auto
  from UnetSkipConnectionBlock_good [OF nl _ ngf, where submodule = "Some b4" and outermost = True
      and innermost = False and outer_nc = output_nc
      and input_nc = "Some input_nc" and ud = False] s4
  obtain b5 where b5: "UnetSkipConnectionBlock_init output_nc ngf (Some input_nc) (Some b4) True False nl False = Inr b5"
    and s5: "init_safe b5" by auto
  show ?thesis
    unfolding UnetGenerator_init_def using b0 b1 b2 b3 b4 b5 s5
    by (simp add: init_safe_container)
qed

lemma with_norm_eq:
  "with_norm ms n =
     Inr (nn_Sequential (ms @ [Module (LayerNorm n ''channels_first'') (Param [n] (Constant 1))
                                  (Param [n] (Constant 0)) []]))"
  by (simp add: with_norm_def LayerNorm_init_def)

lemma Block_good:
  "0 < c \<Longrightarrow> \<exists>m. Block_init c dp ls = Inr m \<and> init_safe m"
  by (simp add: Block_init_def LayerNorm_init_def init_safe_container init_safe_conv)

lemma InvBlock_good:
  assumes "\<forall>c. 0 < c \<longrightarrow> (\<exists>m. Involution2d E c c = Inr m \<and> init_safe m)" and "0 < c"
  shows "\<exists>m. InvBlock_init E c dp ls = Inr m \<and> init_safe m"
proof -
  from assms obtain dw where "Involution2d E c c = Inr dw" "init_safe dw" by blast
  with assms(2) show ?thesis
    by (simp add: InvBlock_init_def LayerNorm_init_def init_safe_container init_safe_conv)
qed

lemma stages_good:
  assumes "\<And>c. 0 < c \<Longrightarrow> \<exists>m. block c 0 (1 / 1000000) = Inr m \<and> init_safe m"
  shows "\<exists>m. stages block = Inr m \<and> init_safe m"
proof -
  have pos: "0 < [96, 192, 384, 768 :: nat] ! i" if "i \<in> set [0..<4]" for i :: nat
  proof -
    from that have "i = 0 \<or> i = 1 \<or> i = 2 \<or> i = 3" by auto
    then show ?thesis by auto
  qed
  have "\<exists>ys. emap (\<lambda>i. ebind (emap (\<lambda>j. block ([96, 192, 384, 768] ! i) 0 (1 / 1000000))
                                  [0..<[3, 3, 9, 3] ! i])
                          (\<lambda>bs. Inr (nn_Sequential bs)))
               [0..<4] = Inr ys \<and> list_all init_safe ys"
  proof (rule emap_good)
    fix i :: nat
    assume i: "i \<in> set [0..<4]"
    have "\<exists>bs. emap (\<lambda>j. block ([96, 192, 384, 768] ! i) 0 (1 / 1000000)) [0..<[3, 3, 9, 3] ! i] = Inr bs
            \<and> list_all init_safe bs"
      by (rule emap_good) (rule assms [OF pos [OF i]])
    then show "\<exists>y. ebind (emap (\<lambda>j. block ([96, 192, 384, 768] ! i) 0 (1 / 1000000))
                                  [0..<[3, 3, 9, 3] ! i])
                          (\<lambda>bs. Inr (nn_Sequential bs)) = Inr y \<and> init_safe y"
      by auto
  qed
  then show ?thesis
    by (auto simp add: stages_def Let_def init_safe_container)
qed

lemma ConvnextGenerator_good:
  assumes "0 < ngf"
  shows "\<exists>net. ConvnextGenerator_init input_nc output_nc ngf = Inr net
           \<and> init_safe net \<and> kind net = ConvnextGenerator"
proof -
  from stages_good [of Block_init] Block_good
  obtain st where "stages Block_init = Inr st" "init_safe st" by blast
  with assms show ?thesis
    by (simp add: ConvnextGenerator_init_def Let_def with_norm_eq init_safe_container init_safe_conv)
qed

lemma ConvnextBIGenerator_good:
  assumes "0 < ngf" and "0 < output_nc"
  shows "\<exists>net. ConvnextBIGenerator_init input_nc output_nc ngf = Inr net
           \<and> init_safe net \<and> kind net = ConvnextBIGenerator"
proof -
  from stages_good [of Block_init] Block_good
  obtain st where "stages Block_init = Inr st" "init_safe st" by blast
  with assms show ?thesis
    by (simp add: ConvnextBIGenerator_init_def Let_def with_norm_eq init_safe_container init_safe_conv)
qed

lemma InvnextGenerator_good:
  assumes "\<forall>c. 0 < c \<longrightarrow> (\<exists>m. Involution2d E c c = Inr m \<and> init_safe m)" and "0 < ngf"
  shows "\<exists>net. InvnextGenerator_init E input_nc output_nc ngf = Inr net
           \<and> init_safe net \<and> kind net = InvnextGenerator"
proof -
  from stages_good [of "InvBlock_init E"] InvBlock_good [OF assms(1)]
  obtain st where "stages (InvBlock_init E) = Inr st" "init_safe st" by blast
  with assms(2) show ?thesis
    by (simp add: InvnextGenerator_init_def Let_def with_norm_eq init_safe_container init_safe_conv)
qed

lemma norm_callable:
  "norm_name \<in> {''batch'', ''instance'', ''none''} \<Longrightarrow>
   \<exists>nl. get_norm_layer norm_name = Inr nl \<and> (\<forall>n. \<exists>nm. call_norm_layer nl n = Inr nm)"
  by (auto simp add: get_norm_layer_def)

lemma init_net_good:
  assumes "init_type \<in> {''normal'', ''xavier'', ''kaiming'', ''orthogonal''}" and "0 \<le> init_gain"
    and "init_safe net"
    and "gpu_ids \<noteq> [] \<longrightarrow>
           cuda_available E \<and> to_device E (hd gpu_ids) = None \<and> data_parallel E gpu_ids = None"
  shows "\<exists>net'. init_net E net init_type init_gain gpu_ids = Inr net' \<and>
           (gpu_ids = [] \<longrightarrow> kind net' = kind net) \<and>
           (gpu_ids \<noteq> [] \<longrightarrow> kind net' = DataParallel)"
proof (cases "gpu_ids = []")
  case True
  then show ?thesis
    using init_weights_safe [OF assms(1-3)] init_weights_kind [of net init_type init_gain]
    by (auto simp add: init_net_def)
next
  case False
  from assms(3) have "init_safe (Module DataParallel Absent Absent [net])"
    by (simp add: init_safe_container)
  from init_weights_safe [OF assms(1,2) this] obtain net'
    where n: "init_weights (Module DataParallel Absent Absent [net]) init_type init_gain = Inr net'"
    by blast
  from init_weights_kind [OF n] have "kind net' = DataParallel" by simp
  with n False assms(4) show ?thesis
    by (simp add: init_net_def)
qed

text \<open>
  With the default normalization name \<open>layer\<close> the construction fails before the generator
  name is looked at.
\<close>

lemma define_G_default_norm_raises:
  "define_G E input_nc output_nc ngf netG ''layer'' use_dropout init_type init_gain gpu_ids
     = Inl TypeError"
  by (simp add: define_G_def get_norm_layer_def LayerNorm_init_def)

text \<open>
  C2 as stated fails: the name \<open>convnext_interpolation\<close> is not accepted; the code compares
  with \<open>Convnext_Interpolation\<close>.
\<close>

theorem define_G_lowercase_name_rejected:
  "define_G cpu_env 3 3 64 ''convnext_interpolation'' ''batch'' False ''normal'' (1 / 50) []
     = Inl (NotImplementedError ''Generator model name [convnext_interpolation] is not recognized'')"
  by (simp add: define_G_def get_norm_layer_def)

lemma define_G_rejects:
  assumes "norm_name \<in> {''batch'', ''instance'', ''none''}"
    and "netG \<notin> {''resnet_9blocks'', ''resnet_6blocks'', ''resnet_1blocks'', ''convnext'',
                   ''invnext'', ''Convnext_Interpolation'', ''unet_128'', ''unet_256''}"
  shows "define_G E input_nc output_nc ngf netG norm_name use_dropout init_type init_gain gpu_ids
              = Inl (NotImplementedError (''Generator model name ['' @ netG @ ''] is not recognized''))"
proof -
  from norm_callable [OF assms(1)] obtain nl where nl: "get_norm_layer norm_name = Inr nl" by blast
  from assms(2) nl show ?thesis by (simp add: define_G_def)
qed

lemma define_G_accepts:
  assumes norm: "norm_name \<in> {''batch'', ''instance'', ''none''}"
    and names: "netG \<in> {''resnet_9blocks'', ''resnet_6blocks'', ''resnet_1blocks'', ''convnext'',
                   ''invnext'', ''Convnext_Interpolation'', ''unet_128'', ''unet_256''}"
    and it: "init_type \<in> {''normal'', ''xavier'', ''kaiming'', ''orthogonal''}"
    and gain: "0 \<le> init_gain"
    and onc: "0 < output_nc" and ngf: "0 < ngf"
    and inv: "netG = ''invnext'' \<longrightarrow>
               (\<forall>c. 0 < c \<longrightarrow> (\<exists>m. Involution2d E c c = Inr m \<and> init_safe m))"
    and gpu: "gpu_ids \<noteq> [] \<longrightarrow>
               cuda_available E \<and> to_device E (hd gpu_ids) = None \<and> data_parallel E gpu_ids = None"
  shows "\<exists>net. define_G E input_nc output_nc ngf netG norm_name use_dropout init_type init_gain gpu_ids
                     = Inr net \<and>
                   (gpu_ids = [] \<longrightarrow>
                      kind net \<in> {ResnetGenerator, ConvnextGenerator, InvnextGenerator,
                                  ConvnextBIGenerator, UnetGenerator}) \<and>
                   (gpu_ids \<noteq> [] \<longrightarrow> kind net = DataParallel)"
proof -
  from norm_callable [OF norm] obtain nl where nl: "get_norm_layer norm_name = Inr nl"
    and call: "\<And>n. \<exists>nm. call_norm_layer nl n = Inr nm" by blast
  have bn: "\<And>n. \<exists>nm. call_norm_layer BatchNorm2d_class n = Inr nm" by simp
  have fin: "\<exists>net'. init_net E net init_type init_gain gpu_ids = Inr net' \<and>
           (gpu_ids = [] \<longrightarrow> kind net' \<in> {ResnetGenerator, ConvnextGenerator, InvnextGenerator,
                                  ConvnextBIGenerator, UnetGenerator}) \<and>
           (gpu_ids \<noteq> [] \<longrightarrow> kind net' = DataParallel)"
    if s: "init_safe net" and k: "kind net \<in> {ResnetGenerator, ConvnextGenerator, InvnextGenerator,
                                  ConvnextBIGenerator, UnetGenerator}" for net
  proof -
    from init_net_good [OF it gain s gpu] obtain net'
      where "init_net E net init_type init_gain gpu_ids = Inr net'"
        and "gpu_ids = [] \<longrightarrow> kind net' = kind net"
        and "gpu_ids \<noteq> [] \<longrightarrow> kind net' = DataParallel" by blast
    with k show ?thesis by metis
  qed
  have step: "\<exists>net. ebind (Inr gen) (\<lambda>net. init_net E net init_type init_gain gpu_ids) = Inr net \<and>
                   (gpu_ids = [] \<longrightarrow>
                      kind net \<in> {ResnetGenerator, ConvnextGenerator, InvnextGenerator,
                                  ConvnextBIGenerator, UnetGenerator}) \<and>
                   (gpu_ids \<noteq> [] \<longrightarrow> kind net = DataParallel)"
    if "init_safe gen" and "kind gen \<in> {ResnetGenerator, ConvnextGenerator, InvnextGenerator,
                                  ConvnextBIGenerator, UnetGenerator}" for gen
    using fin [OF that] by simp
  from names consider "netG = ''resnet_9blocks''" | "netG = ''resnet_6blocks''"
    | "netG = ''resnet_1blocks''" | "netG = ''convnext''" | "netG = ''invnext''"
    | "netG = ''Convnext_Interpolation''" | "netG = ''unet_128''" | "netG = ''unet_256''"
    by (elim insertE emptyE) simp_all
  then show ?thesis
  proof cases
    case 1
    from ResnetGenerator_good [OF bn _ ngf, of 9 input_nc output_nc use_dropout]
    obtain net where c: "ResnetGenerator_init input_nc output_nc ngf BatchNorm2d_class use_dropout 9 ''reflect'' = Inr net"
      and s: "init_safe net" and k: "kind net = ResnetGenerator" by auto
    from k have "kind net \<in> {ResnetGenerator, ConvnextGenerator, InvnextGenerator,
                                  ConvnextBIGenerator, UnetGenerator}" by simp
    from step [OF s this] c nl 1 show ?thesis by (simp add: define_G_def)
  next
    case 2
    from ResnetGenerator_good [OF bn _ ngf, of 6 input_nc output_nc use_dropout]
    obtain net where c: "ResnetGenerator_init input_nc output_nc ngf BatchNorm2d_class use_dropout 6 ''reflect'' = Inr net"
      and s: "init_safe net" and k: "kind net = ResnetGenerator" by auto
    from k have "kind net \<in> {ResnetGenerator, ConvnextGenerator, InvnextGenerator,
                                  ConvnextBIGenerator, UnetGenerator}" by simp
    from step [OF s this] c nl 2 show ?thesis by (simp add: define_G_def)
  next
    case 3
    from ResnetGenerator_good [OF call _ ngf, of 1 input_nc output_nc use_dropout]
    obtain net where c: "ResnetGenerator_init input_nc output_nc ngf nl use_dropout 1 ''reflect'' = Inr net"
      and s: "init_safe net" and k: "kind net = ResnetGenerator" by auto
    from k have "kind net \<in> {ResnetGenerator, ConvnextGenerator, InvnextGenerator,
                                  ConvnextBIGenerator, UnetGenerator}" by simp
    from step [OF s this] c nl 3 show ?thesis by (simp add: define_G_def)
  next
    case 4
    from ConvnextGenerator_good [OF ngf, of input_nc output_nc]
    obtain net where c: "ConvnextGenerator_init input_nc output_nc ngf = Inr net"
      and s: "init_safe net" and k: "kind net = ConvnextGenerator" by auto
    from k have "kind net \<in> {ResnetGenerator, ConvnextGenerator, InvnextGenerator,
                                  ConvnextBIGenerator, UnetGenerator}" by simp
    from step [OF s this] c nl 4 show ?thesis by (simp add: define_G_def)
  next
    case 5
    with inv have iv: "\<forall>c. 0 < c \<longrightarrow> (\<exists>m. Involution2d E c c = Inr m \<and> init_safe m)" by simp
    from InvnextGenerator_good [OF iv ngf, of input_nc output_nc]
    obtain net where c: "InvnextGenerator_init E input_nc output_nc ngf = Inr net"
      and s: "init_safe net" and k: "kind net = InvnextGenerator" by auto
    from k have "kind net \<in> {ResnetGenerator, ConvnextGenerator, InvnextGenerator,
                                  ConvnextBIGenerator, UnetGenerator}" by simp
    from step [OF s this] c nl 5 show ?thesis by (simp add: define_G_def)
  next
    case 6
    from ConvnextBIGenerator_good [OF ngf onc, of input_nc]
    obtain net where c: "ConvnextBIGenerator_init input_nc output_nc ngf = Inr net"
      and s: "init_safe net" and k: "kind net = ConvnextBIGenerator" by auto
    from k have "kind net \<in> {ResnetGenerator, ConvnextGenerator, InvnextGenerator,
                                  ConvnextBIGenerator, UnetGenerator}" by simp
    from step [OF s this] c nl 6 show ?thesis by (simp add: define_G_def)
  next
    case 7
    from UnetGenerator_good [OF call ngf, of input_nc output_nc 7 use_dropout]
    obtain net where c: "UnetGenerator_init input_nc output_nc 7 ngf nl use_dropout = Inr net"
      and s: "init_safe net" and k: "kind net = UnetGenerator" by auto
    from k have "kind net \<in> {ResnetGenerator, ConvnextGenerator, InvnextGenerator,
                                  ConvnextBIGenerator, UnetGenerator}" by simp
    from step [OF s this] c nl 7 show ?thesis by (simp add: define_G_def)
  next
    case 8
    from UnetGenerator_good [OF call ngf, of input_nc output_nc 8 use_dropout]
    obtain net where c: "UnetGenerator_init input_nc output_nc 8 ngf nl use_dropout = Inr net"
      and s: "init_safe net" and k: "kind net = UnetGenerator" by auto
    from k have "kind net \<in> {ResnetGenerator, ConvnextGenerator, InvnextGenerator,
                                  ConvnextBIGenerator, UnetGenerator}" by simp
    from step [OF s this] c nl 8 show ?thesis by (simp add: define_G_def)
  qed
qed

text \<open>
  C2 (amended): once the normalization is selected (name \<open>batch\<close>, \<open>instance\<close> or
  \<open>none\<close>), \<open>define_G\<close> accepts exactly the eight kind names \<open>resnet_9blocks\<close>,
  \<open>resnet_6blocks\<close>, \<open>resnet_1blocks\<close>, \<open>convnext\<close>, \<open>invnext\<close>,
  \<open>Convnext_Interpolation\<close>, \<open>unet_128\<close> and \<open>unet_256\<close>. For every other kind string it
  fails with the unrecognized-name error, whatever the other arguments are. For each of the
  eight it returns a constructed and initialised generator network (wrapped for data
  parallelism when GPUs are requested), provided that the initialisation can run: the
  initialisation method is known, the gain is not negative, the channel counts are
  positive, for \<open>invnext\<close> the involution layer can be constructed and initialised, and when
  GPUs are requested CUDA is available and the library moves and wraps the network.
\<close>

theorem define_G_names:
  assumes norm: "norm_name \<in> {''batch'', ''instance'', ''none''}"
  shows "(netG \<notin> {''resnet_9blocks'', ''resnet_6blocks'', ''resnet_1blocks'', ''convnext'',
                   ''invnext'', ''Convnext_Interpolation'', ''unet_128'', ''unet_256''} \<longrightarrow>
            define_G E input_nc output_nc ngf netG norm_name use_dropout init_type init_gain gpu_ids
              = Inl (NotImplementedError (''Generator model name ['' @ netG @ ''] is not recognized'')))
         \<and> (netG \<in> {''resnet_9blocks'', ''resnet_6blocks'', ''resnet_1blocks'', ''convnext'',
                   ''invnext'', ''Convnext_Interpolation'', ''unet_128'', ''unet_256''} \<and>
            init_type \<in> {''normal'', ''xavier'', ''kaiming'', ''orthogonal''} \<and> 0 \<le> init_gain \<and>
            0 < input_nc \<and> 0 < output_nc \<and> 0 < ngf \<and>
            (netG = ''invnext'' \<longrightarrow>
               (\<forall>c. 0 < c \<longrightarrow> (\<exists>m. Involution2d E c c = Inr m \<and> init_safe m))) \<and>
            (gpu_ids \<noteq> [] \<longrightarrow>
               cuda_available E \<and> to_device E (hd gpu_ids) = None \<and> data_parallel E gpu_ids = None)
            \<longrightarrow>
            (\<exists>net. define_G E input_nc output_nc ngf netG norm_name use_dropout init_type init_gain gpu_ids
                     = Inr net \<and>
                   (gpu_ids = [] \<longrightarrow>
                      kind net \<in> {ResnetGenerator, ConvnextGenerator, InvnextGenerator,
                                  ConvnextBIGenerator, UnetGenerator}) \<and>
                   (gpu_ids \<noteq> [] \<longrightarrow> kind net = DataParallel)))"
proof (intro conjI impI)
  assume "netG \<notin> {''resnet_9blocks'', ''resnet_6blocks'', ''resnet_1blocks'', ''convnext'',
                   ''invnext'', ''Convnext_Interpolation'', ''unet_128'', ''unet_256''}"
  then show "define_G E input_nc output_nc ngf netG norm_name use_dropout init_type init_gain gpu_ids
              = Inl (NotImplementedError (''Generator model name ['' @ netG @ ''] is not recognized''))"
    by (rule define_G_rejects [OF norm])
next
  assume h: "netG \<in> {''resnet_9blocks'', ''resnet_6blocks'', ''resnet_1blocks'', ''convnext'',
                   ''invnext'', ''Convnext_Interpolation'', ''unet_128'', ''unet_256''} \<and>
            init_type \<in> {''normal'', ''xavier'', ''kaiming'', ''orthogonal''} \<and> 0 \<le> init_gain \<and>
            0 < input_nc \<and> 0 < output_nc \<and> 0 < ngf \<and>
            (netG = ''invnext'' \<longrightarrow>
               (\<forall>c. 0 < c \<longrightarrow> (\<exists>m. Involution2d E c c = Inr m \<and> init_safe m))) \<and>
            (gpu_ids \<noteq> [] \<longrightarrow>
               cuda_available E \<and> to_device E (hd gpu_ids) = None \<and> data_parallel E gpu_ids = None)"
  from h have names: "netG \<in> {''resnet_9blocks'', ''resnet_6blocks'', ''resnet_1blocks'', ''convnext'',
                   ''invnext'', ''Convnext_Interpolation'', ''unet_128'', ''unet_256''}"
    by (elim conjE)
  from h have it: "init_type \<in> {''normal'', ''xavier'', ''kaiming'', ''orthogonal''}"
    by (elim conjE)
  from h have gain: "0 \<le> init_gain" by (elim conjE)
  from h have onc: "0 < output_nc" by (elim conjE)
  from h have ngf: "0 < ngf" by (elim conjE)
  from h have inv: "netG = ''invnext'' \<longrightarrow>
               (\<forall>c. 0 < c \<longrightarrow> (\<exists>m. Involution2d E c c = Inr m \<and> init_safe m))"
    by (elim conjE)
  from h have gpu: "gpu_ids \<noteq> [] \<longrightarrow>
               cuda_available E \<and> to_device E (hd gpu_ids) = None \<and> data_parallel E gpu_ids = None"
    by (elim conjE)
  show "\<exists>net. define_G E input_nc output_nc ngf netG norm_name use_dropout init_type init_gain gpu_ids
                     = Inr net \<and>
                   (gpu_ids = [] \<longrightarrow>
                      kind net \<in> {ResnetGenerator, ConvnextGenerator, InvnextGenerator,
                                  ConvnextBIGenerator, UnetGenerator}) \<and>
                   (gpu_ids \<noteq> [] \<longrightarrow> kind net = DataParallel)"
    by (rule define_G_accepts [OF norm names it gain onc ngf inv gpu])
qed

theorem define_G_names_witness:
  "''batch'' \<in> {''batch'', ''instance'', ''none''} \<and>
   (\<exists>net. define_G cpu_env 3 3 64 ''unet_256'' ''batch'' False ''normal'' (1 / 50) [] = Inr net
      \<and> kind net \<in> {ResnetGenerator, ConvnextGenerator, InvnextGenerator,
                      ConvnextBIGenerator, UnetGenerator}) \<and>
   (\<exists>net. define_G gpu_env 3 3 64 ''invnext'' ''batch'' False ''xavier'' (1 / 50) [0] = Inr net
      \<and> kind net = DataParallel) \<and>
   define_G cpu_env 3 3 64 ''vgg'' ''batch'' False ''normal'' (- 1) [0]
     = Inl (NotImplementedError ''Generator model name [vgg] is not recognized'')"
proof -
  have a: "''batch'' \<in> {''batch'', ''instance'', ''none''}" by simp
  have e: "\<forall>c. 0 < c \<longrightarrow> (\<exists>m. Involution2d gpu_env c c = Inr m \<and> init_safe m)"
    by (simp add: gpu_env_def cpu_env_def init_safe_Module init_safe1_def conv_like_def
        init_safe_conv)
  have g: "cuda_available gpu_env \<and> to_device gpu_env (hd [0]) = None \<and> data_parallel gpu_env [0] = None"
    by (simp add: gpu_env_def)
  have u: "\<exists>net. define_G cpu_env 3 3 64 ''unet_256'' ''batch'' False ''normal'' (1 / 50) [] = Inr net
      \<and> kind net \<in> {ResnetGenerator, ConvnextGenerator, InvnextGenerator,
                      ConvnextBIGenerator, UnetGenerator}"
    using define_G_names [OF a, where netG = "''unet_256''" and E = cpu_env and input_nc = 3
        and output_nc = 3 and ngf = 64 and use_dropout = False and init_type = "''normal''"
        and init_gain = "1 / 50" and gpu_ids = "[]"]
    by simp
  have i: "\<exists>net. define_G gpu_env 3 3 64 ''invnext'' ''batch'' False ''xavier'' (1 / 50) [0] = Inr net
      \<and> kind net = DataParallel"
    using define_G_names [OF a, where netG = "''invnext''" and E = gpu_env and input_nc = 3
        and output_nc = 3 and ngf = 64 and use_dropout = False and init_type = "''xavier''"
        and init_gain = "1 / 50" and gpu_ids = "[0]"] e g
    by simp
  have v: "define_G cpu_env 3 3 64 ''vgg'' ''batch'' False ''normal'' (- 1) [0]
     = Inl (NotImplementedError ''Generator model name [vgg] is not recognized'')"
    using define_G_names [OF a, where netG = "''vgg''" and E = cpu_env and input_nc = 3
        and output_nc = 3 and ngf = 64 and use_dropout = False and init_type = "''normal''"
        and init_gain = "- 1" and gpu_ids = "[0]"]
    by simp
  show ?thesis
    by (intro conjI) (rule a, rule u, rule i, rule v)
qed

end
